theory Spec2Isabelle
  imports Main "HOL-Library.Log_Nat"
begin

section \<open>Python values\<close>

text \<open>
  The integration handles decoded JSON: \<open>None\<close>, booleans, unbounded integers, floats,
  strings, lists and dicts whose keys are strings (every key the source passes to
  \<open>dict.get\<close> is a string literal). A float is a rational (every finite double is one),
  an infinity or NaN; the two zeros are one value, as they are for Python's \<open>==\<close>.
  A dict is an association list in insertion order; a lookup takes the first entry of a key.
\<close>

datatype pyfloat = Fin rat | PInf | NInf | NaN

datatype pyval =
    PNone
  | PBool bool
  | PInt int
  | PFloat pyfloat
  | PStr string
  | PList "pyval list"
  | PDict "(string \<times> pyval) list"

text \<open>The instances of \<open>Exception\<close> that the code raises or passes on.\<close>

datatype pyerror =
    TypeError
  | ValueError
  | OverflowError
  | ZeroDivisionError
  | AttributeError
  | Exception string
  | ClientError string
  | UpdateFailed pyerror

text \<open>\<open>d.get(key)\<close>: the value bound to the key, \<open>None\<close> when the key is missing.\<close>

definition dict_get :: "(string \<times> pyval) list \<Rightarrow> string \<Rightarrow> pyval" where
  "dict_get d k = (case map_of d k of None \<Rightarrow> PNone | Some v \<Rightarrow> v)"

section \<open>safe_get\<close>

text \<open>
  \<^verbatim>\<open>
  def safe_get(data, *keys):
      for key in keys:
          if isinstance(data, dict):
              data = data.get(key)
          else:
              return None
      return data
  \<close>
\<close>

fun safe_get :: "pyval \<Rightarrow> string list \<Rightarrow> pyval" where
  "safe_get data [] = data"
| "safe_get data (key # keys) =
     (case data of
        PDict d \<Rightarrow> safe_get (dict_get d key) keys
      | _ \<Rightarrow> PNone)"

text \<open>
  The claim's own words, as a second definition: \<open>lookups data keys\<close> is the list of the
  values met on the way, \<open>data\<close> first, each next one obtained from the one before by
  looking the next key up; it stops before a lookup in a value that is not a dict.
\<close>

definition is_dict :: "pyval \<Rightarrow> bool" where
  "is_dict v = (case v of PDict d \<Rightarrow> True | _ \<Rightarrow> False)"

definition lookup1 :: "pyval \<Rightarrow> string \<Rightarrow> pyval" where
  "lookup1 v k = (case v of PDict d \<Rightarrow> dict_get d k | _ \<Rightarrow> PNone)"

fun lookups :: "pyval \<Rightarrow> string list \<Rightarrow> pyval list" where
  "lookups data [] = [data]"
| "lookups data (key # keys) = data # lookups (lookup1 data key) keys"

definition safe_get_spec :: "pyval \<Rightarrow> string list \<Rightarrow> pyval" where
  "safe_get_spec data keys =
     (if list_all is_dict (butlast (lookups data keys))
      then last (lookups data keys) else PNone)"

lemma lookups_not_Nil: "lookups data keys \<noteq> []"
  by (cases keys) simp_all

lemma safe_get_is_spec_aux: "safe_get data keys = safe_get_spec data keys"
proof (induction keys arbitrary: data)
  case Nil
  show ?case by (simp add: safe_get_spec_def)
next
  case (Cons key keys)
  show ?case
  proof (cases data)
    case (PDict d)
    then show ?thesis
      using Cons.IH [of "dict_get d key"]
      by (simp add: safe_get_spec_def lookups_not_Nil is_dict_def lookup1_def)
  qed (simp_all add: safe_get_spec_def lookups_not_Nil is_dict_def)
qed

text \<open>
  C1. \<open>safe_get\<close> is total (it returns a value for every input and every finite key
  sequence, the model has no raising branch because the source has none); with no keys it
  returns \<open>data\<close> unchanged; otherwise it returns the value reached by looking each key up in
  turn when every intermediate value is a dict, and \<open>None\<close> when some intermediate value,
  a previous lookup's result included, is not a dict; a missing key yields \<open>None\<close>.
\<close>

theorem safe_get_safe_accessor:
  "safe_get data [] = data
   \<and> safe_get data keys =
       (if list_all is_dict (butlast (lookups data keys))
        then last (lookups data keys) else PNone)
   \<and> (\<forall>d k ks. safe_get (PDict d) (k # ks) = safe_get (dict_get d k) ks)
   \<and> (\<forall>d k. map_of d k = None \<longrightarrow> dict_get d k = PNone)
   \<and> (\<forall>k ks. \<not> is_dict data \<longrightarrow> safe_get data (k # ks) = PNone)"
proof -
  have "safe_get data keys = safe_get_spec data keys"
    by (rule safe_get_is_spec_aux)
  moreover have "\<forall>k ks. \<not> is_dict data \<longrightarrow> safe_get data (k # ks) = PNone"
    by (cases data) (simp_all add: is_dict_def)
  ultimately show ?thesis
    by (simp add: safe_get_spec_def dict_get_def)
qed

theorem safe_get_safe_accessor_witness:
  "safe_get (PDict [(''a'', PDict [(''b'', PInt 7)])]) [''a'', ''b''] = PInt 7
   \<and> safe_get (PDict [(''a'', PInt 7)]) [''a'', ''b''] = PNone
   \<and> safe_get (PDict [(''a'', PInt 7)]) [''x''] = PNone
   \<and> \<not> is_dict (PInt 7) \<and> safe_get (PInt 7) [''a''] = PNone
   \<and> map_of [(''a'', PInt 7)] ''x'' = None \<and> dict_get [(''a'', PInt 7)] ''x'' = PNone"
  using safe_get_safe_accessor [of "PInt 7" "[''a'']"]
  by (simp add: dict_get_def is_dict_def)

section \<open>Double-precision arithmetic\<close>

text \<open>
  Python's \<open>float\<close> is the IEEE 754 binary64 format. \<open>rnd x\<close> is the double nearest to the
  rational \<open>x\<close>, ties to the even mantissa, with an unbounded exponent upwards (the callers
  test for overflow at \<open>2 ^ 1024\<close>) and the subnormal spacing \<open>2 ^ - 1074\<close> downwards.
  \<open>ilog2 x\<close> is the binary exponent \<open>\<lfloor>log\<^sub>2 x\<rfloor>\<close> of a positive rational and
  \<open>round_half_even\<close> is the rounding of Python's \<open>round\<close> with one argument.
\<close>

definition pow2 :: "int \<Rightarrow> rat" where
  "pow2 e = (if 0 \<le> e then 2 ^ nat e else 1 / 2 ^ nat (- e))"

definition ilog2 :: "rat \<Rightarrow> int" where
  "ilog2 x = (if 1 \<le> x then bitlen \<lfloor>x\<rfloor> - 1 else - bitlen (\<lceil>1 / x\<rceil> - 1))"

definition round_half_even :: "rat \<Rightarrow> int" where
  "round_half_even r =
     (let f = \<lfloor>r\<rfloor>; d = r - of_int f
      in if d < 1 / 2 then f else if 1 / 2 < d then f + 1
         else if even f then f else f + 1)"

definition expo :: "rat \<Rightarrow> int" where
  "expo x = max (ilog2 \<bar>x\<bar> - 52) (- 1074)"

definition rnd :: "rat \<Rightarrow> rat" where
  "rnd x = (if x = 0 then 0
            else of_int (round_half_even (x / pow2 (expo x))) * pow2 (expo x))"

lemma pow2_powi: "pow2 e = 2 powi e"
  by (simp add: pow2_def power_int_def power_inverse inverse_eq_divide power_one_over)

lemma pow2_pos [simp]: "0 < pow2 e"
  by (simp add: pow2_def)

lemma pow2_nonzero [simp]: "pow2 e \<noteq> 0"
  by (simp add: pow2_def)

lemma pow2_add: "pow2 (a + b) = pow2 a * pow2 b"
  by (simp add: pow2_powi power_int_add)

lemma pow2_0 [simp]: "pow2 0 = 1"
  by (simp add: pow2_def)

lemma pow2_minus: "pow2 (- e) = 1 / pow2 e"
  by (simp add: pow2_powi power_int_minus_divide)

lemma pow2_mono: "a \<le> b \<Longrightarrow> pow2 a \<le> pow2 b"
  by (simp add: pow2_powi power_int_increasing)

lemma pow2_strict_mono: "a < b \<Longrightarrow> pow2 a < pow2 b"
  by (simp add: pow2_powi power_int_strict_increasing)

lemma pow2_less_iff: "pow2 a < pow2 b \<longleftrightarrow> a < b"
  by (metis pow2_strict_mono pow2_mono not_less)

lemma pow2_le_iff: "pow2 a \<le> pow2 b \<longleftrightarrow> a \<le> b"
  by (metis pow2_strict_mono pow2_mono not_le)

lemma pow2_nat: "pow2 (int n) = 2 ^ n"
  by (simp add: pow2_def)

lemma ilog2_bounds:
  assumes "0 < x"
  shows "pow2 (ilog2 x) \<le> x \<and> x < pow2 (ilog2 x + 1)"
proof (cases "1 \<le> x")
  case True
  define n where "n = \<lfloor>x\<rfloor>"
  have n: "0 < n" using True by (simp add: n_def)
  have b: "1 \<le> bitlen n" using n bitlen_eq_zero_iff [of n] bitlen_nonneg [of n] by linarith
  from bitlen_bounds [OF n] have lo: "2 ^ nat (bitlen n - 1) \<le> n" and hi: "n < 2 ^ nat (bitlen n)"
    by simp_all
  have "(2::rat) ^ nat (bitlen n - 1) = of_int (2 ^ nat (bitlen n - 1))" by simp
  also have "\<dots> \<le> of_int n" using lo by (simp only: of_int_le_iff)
  also have "\<dots> \<le> x" by (simp add: n_def)
  finally have 1: "pow2 (bitlen n - 1) \<le> x" using b by (simp add: pow2_def)
  have "n + 1 \<le> 2 ^ nat (bitlen n)" using hi by simp
  then have "(of_int (n + 1) :: rat) \<le> of_int (2 ^ nat (bitlen n))" by (simp only: of_int_le_iff)
  moreover have "x < of_int (n + 1)" using floor_correct [of x] by (simp add: n_def)
  ultimately have "x < 2 ^ nat (bitlen n)" by simp
  then have 2: "x < pow2 (bitlen n - 1 + 1)" using b by (simp add: pow2_def)
  show ?thesis using 1 2 True by (simp add: ilog2_def n_def)
next
  case False
  define y where "y = 1 / x"
  have y: "1 < y" using False assms by (simp add: y_def)
  define n where "n = \<lceil>y\<rceil> - 1"
  have n: "0 < n" using y by (simp add: n_def less_ceiling_iff)
  have ny: "of_int n < y" by (simp add: n_def) linarith
  have yn: "y \<le> of_int (n + 1)" by (simp add: n_def)
  have b: "1 \<le> bitlen n" using n bitlen_eq_zero_iff [of n] bitlen_nonneg [of n] by linarith
  from bitlen_bounds [OF n] have lo: "2 ^ nat (bitlen n - 1) \<le> n" and hi: "n < 2 ^ nat (bitlen n)"
    by simp_all
  have "n + 1 \<le> 2 ^ nat (bitlen n)" using hi by simp
  then have "(of_int (n + 1) :: rat) \<le> of_int (2 ^ nat (bitlen n))" by (simp only: of_int_le_iff)
  with yn have "y \<le> 2 ^ nat (bitlen n)" by simp
  then have "y \<le> pow2 (bitlen n)" using b by (simp add: pow2_def)
  then have 1: "pow2 (- bitlen n) \<le> x"
    using assms by (simp add: pow2_minus y_def field_simps)
  have "(2::rat) ^ nat (bitlen n - 1) = of_int (2 ^ nat (bitlen n - 1))" by simp
  also have "\<dots> \<le> of_int n" using lo by (simp only: of_int_le_iff)
  also have "\<dots> < y" by (rule ny)
  finally have "pow2 (bitlen n - 1) < y" using b by (simp add: pow2_def)
  then have "x < 1 / pow2 (bitlen n - 1)"
    using assms by (simp add: y_def field_simps)
  then have 2: "x < pow2 (- bitlen n + 1)"
    using pow2_minus [of "bitlen n - 1"] by simp
  show ?thesis using 1 2 False by (simp add: ilog2_def n_def y_def)
qed

lemma ilog2_unique:
  assumes "pow2 k \<le> x" "x < pow2 (k + 1)"
  shows "ilog2 x = k"
proof -
  have x: "0 < x" using assms(1) pow2_pos [of k] by linarith
  from ilog2_bounds [OF x] have a: "pow2 (ilog2 x) \<le> x" and b: "x < pow2 (ilog2 x + 1)"
    by simp_all
  have "pow2 k < pow2 (ilog2 x + 1)" using assms(1) b by linarith
  then have "k < ilog2 x + 1" by (simp only: pow2_less_iff)
  moreover have "pow2 (ilog2 x) < pow2 (k + 1)" using assms(2) a by linarith
  then have "ilog2 x < k + 1" by (simp only: pow2_less_iff)
  ultimately show ?thesis by simp
qed

lemma ilog2_mono:
  assumes "0 < x" "x \<le> y"
  shows "ilog2 x \<le> ilog2 y"
proof -
  have y: "0 < y" using assms by simp
  have "pow2 (ilog2 x) \<le> x" using ilog2_bounds [OF assms(1)] by simp
  also have "x \<le> y" by fact
  also have "y < pow2 (ilog2 y + 1)" using ilog2_bounds [OF y] by simp
  finally have "ilog2 x < ilog2 y + 1" by (simp only: pow2_less_iff)
  then show ?thesis by simp
qed

lemma rhe_cases: "round_half_even r = \<lfloor>r\<rfloor> \<or> round_half_even r = \<lfloor>r\<rfloor> + 1"
  by (simp add: round_half_even_def Let_def)

lemma rhe_of_int [simp]: "round_half_even (of_int n) = n"
  by (simp add: round_half_even_def Let_def)

lemma rhe_mono:
  assumes "r \<le> s"
  shows "round_half_even r \<le> round_half_even s"
proof (cases "\<lfloor>r\<rfloor> < \<lfloor>s\<rfloor>")
  case True
  have "round_half_even r \<le> \<lfloor>r\<rfloor> + 1" using rhe_cases [of r] by linarith
  moreover have "\<lfloor>s\<rfloor> \<le> round_half_even s" using rhe_cases [of s] by linarith
  ultimately show ?thesis using True by linarith
next
  case False
  then have eq: "\<lfloor>r\<rfloor> = \<lfloor>s\<rfloor>" using floor_mono [OF assms] by simp
  show ?thesis using assms eq by (auto simp: round_half_even_def Let_def)
qed

lemma rhe_minus: "round_half_even (- r) = - round_half_even r"
proof (cases "r = of_int \<lfloor>r\<rfloor>")
  case True
  then obtain n where "r = of_int n" ..
  then have "- r = of_int (- n)" by simp
  then show ?thesis using \<open>r = of_int n\<close> by (simp only: rhe_of_int)
next
  case False
  have lo: "of_int \<lfloor>r\<rfloor> < r" using False of_int_floor_le [of r] by linarith
  have hi: "r < of_int \<lfloor>r\<rfloor> + 1" using floor_correct [of r] by simp
  have f: "\<lfloor>- r\<rfloor> = - \<lfloor>r\<rfloor> - 1"
    by (rule floor_unique) (use lo hi in simp_all)
  show ?thesis using lo hi
    by (auto simp: round_half_even_def Let_def f)
qed

lemma rhe_le: "r \<le> of_int n \<Longrightarrow> round_half_even r \<le> n"
  using rhe_mono [of r "of_int n"] by simp

lemma rhe_ge: "of_int n \<le> r \<Longrightarrow> n \<le> round_half_even r"
  using rhe_mono [of "of_int n" r] by simp

lemma expo_minus [simp]: "expo (- x) = expo x"
  by (simp add: expo_def)

lemma rnd_0 [simp]: "rnd 0 = 0"
  by (simp add: rnd_def)

lemma rnd_minus: "rnd (- x) = - rnd x"
  by (simp add: rnd_def rhe_minus)

lemma expo_mono:
  assumes "0 < x" "x \<le> y"
  shows "expo x \<le> expo y"
  using ilog2_mono [OF assms] assms by (simp add: expo_def)

lemma mant_le:
  assumes "0 < x"
  shows "round_half_even (x / pow2 (expo x)) \<le> 2 ^ 53"
proof -
  have "ilog2 x + 1 \<le> expo x + 53" using assms by (simp add: expo_def)
  then have "pow2 (ilog2 x + 1) \<le> pow2 (expo x + 53)" by (rule pow2_mono)
  with ilog2_bounds [OF assms] have "x < pow2 (expo x + 53)" by linarith
  then have "x < pow2 (expo x) * 2 ^ 53" using pow2_nat [of 53] by (simp add: pow2_add)
  then have "x / pow2 (expo x) < 2 ^ 53"
    by (simp add: field_simps)
  then have "x / pow2 (expo x) \<le> of_int (2 ^ 53)" by simp
  then show ?thesis by (rule rhe_le)
qed

lemma mant_ge:
  assumes "0 < x" "- 1074 < expo x"
  shows "2 ^ 52 \<le> round_half_even (x / pow2 (expo x))"
proof -
  have "expo x + 52 = ilog2 x" using assms by (simp add: expo_def)
  with ilog2_bounds [OF assms(1)] have "pow2 (expo x + 52) \<le> x" by simp
  then have "pow2 (expo x) * 2 ^ 52 \<le> x" using pow2_nat [of 52] by (simp add: pow2_add)
  then have "2 ^ 52 \<le> x / pow2 (expo x)"
    by (simp add: field_simps)
  then have "of_int (2 ^ 52) \<le> x / pow2 (expo x)" by simp
  then show ?thesis by (rule rhe_ge)
qed

lemma rnd_mono_pos:
  assumes "0 < x" "x \<le> y"
  shows "rnd x \<le> rnd y"
proof -
  have y: "0 < y" using assms by simp
  have rx: "rnd x = of_int (round_half_even (x / pow2 (expo x))) * pow2 (expo x)"
    using assms by (simp add: rnd_def)
  have ry: "rnd y = of_int (round_half_even (y / pow2 (expo y))) * pow2 (expo y)"
    using y by (simp add: rnd_def)
  show ?thesis
  proof (cases "expo x = expo y")
    case True
    have "x / pow2 (expo y) \<le> y / pow2 (expo y)"
      using assms(2) by (intro divide_right_mono less_imp_le [OF pow2_pos])
    then have "round_half_even (x / pow2 (expo y)) \<le> round_half_even (y / pow2 (expo y))"
      by (rule rhe_mono)
    then have "(of_int (round_half_even (x / pow2 (expo y))) :: rat)
                 \<le> of_int (round_half_even (y / pow2 (expo y)))"
      by (simp only: of_int_le_iff)
    then show ?thesis unfolding rx ry True
      by (simp add: mult_right_mono)
  next
    case False
    with expo_mono [OF assms] have lt: "expo x + 1 \<le> expo y" by simp
    have "- 1074 \<le> expo x" by (simp add: expo_def)
    with lt have big: "- 1074 < expo y" by simp
    have "(of_int (round_half_even (x / pow2 (expo x))) :: rat) \<le> of_int (2 ^ 53)"
      using mant_le [OF assms(1)] by (simp only: of_int_le_iff)
    then have "rnd x \<le> of_int (2 ^ 53) * pow2 (expo x)"
      unfolding rx by (simp add: mult_right_mono)
    also have "\<dots> = pow2 (expo x + 1 + 52)"
      using pow2_nat [of 53] by (simp add: pow2_add)
    also have "\<dots> \<le> pow2 (expo y + 52)"
      using lt by (intro pow2_mono) simp
    also have "\<dots> = of_int (2 ^ 52) * pow2 (expo y)"
      using pow2_nat [of 52] by (simp add: pow2_add)
    also have "\<dots> \<le> rnd y"
    proof -
      have "(of_int (2 ^ 52) :: rat) \<le> of_int (round_half_even (y / pow2 (expo y)))"
        using mant_ge [OF y big] by (simp only: of_int_le_iff)
      then show ?thesis unfolding ry by (simp add: mult_right_mono)
    qed
    finally show ?thesis .
  qed
qed

lemma rnd_nonneg:
  assumes "0 \<le> x"
  shows "0 \<le> rnd x"
proof (cases "x = 0")
  case False
  have "0 \<le> x / pow2 (expo x)" using assms by (intro divide_nonneg_pos pow2_pos)
  then have "of_int 0 \<le> x / pow2 (expo x)" by simp
  then have "0 \<le> round_half_even (x / pow2 (expo x))" by (rule rhe_ge)
  then have "(0::rat) \<le> of_int (round_half_even (x / pow2 (expo x)))" by simp
  then have "0 \<le> of_int (round_half_even (x / pow2 (expo x))) * pow2 (expo x)"
    by (intro mult_nonneg_nonneg less_imp_le [OF pow2_pos])
  then show ?thesis using False by (simp only: rnd_def if_False)
qed simp

lemma rnd_mono:
  assumes "x \<le> y"
  shows "rnd x \<le> rnd y"
proof -
  consider "0 < x" | "x \<le> 0" "0 \<le> y" | "y < 0" by linarith
  then show ?thesis
  proof cases
    case 1
    then show ?thesis using assms by (rule rnd_mono_pos)
  next
    case 2
    have "rnd x = - rnd (- x)" using rnd_minus [of x] by simp
    moreover have "0 \<le> rnd (- x)" using 2 by (intro rnd_nonneg) simp
    moreover have "0 \<le> rnd y" using 2 by (intro rnd_nonneg)
    ultimately show ?thesis by linarith
  next
    case 3
    have "rnd (- y) \<le> rnd (- x)" using 3 assms by (intro rnd_mono_pos) simp_all
    then show ?thesis by (simp add: rnd_minus)
  qed
qed

lemma rnd_at:
  assumes "x \<noteq> 0" "expo x = e"
  shows "rnd x = of_int (round_half_even (x / pow2 e)) * pow2 e"
  using assms by (simp add: rnd_def)

lemma expo_at:
  assumes "pow2 (e + 52) \<le> \<bar>x\<bar>" "\<bar>x\<bar> < pow2 (e + 53)" "- 1074 \<le> e"
  shows "expo x = e"
proof -
  have "ilog2 \<bar>x\<bar> = e + 52"
    using assms(1,2) by (intro ilog2_unique) (simp_all add: add.commute add.left_commute)
  then show ?thesis using assms(3) by (simp add: expo_def)
qed

lemma rnd_of_int:
  assumes "\<bar>n\<bar> \<le> 2 ^ 53"
  shows "rnd (of_int n) = of_int n"
proof (cases "n = 0")
  case False
  define x :: rat where "x = of_int n"
  have x0: "x \<noteq> 0" using False by (simp add: x_def)
  have ax: "0 < \<bar>x\<bar>" using x0 by simp
  have "\<bar>x\<bar> = of_int \<bar>n\<bar>" by (simp add: x_def)
  also have "\<dots> \<le> of_int (2 ^ 53)" using assms by (simp only: of_int_le_iff)
  finally have le: "\<bar>x\<bar> \<le> pow2 53" using pow2_nat [of 53] by simp
  have "pow2 (ilog2 \<bar>x\<bar>) \<le> pow2 53" using ilog2_bounds [OF ax] le by linarith
  then have il: "ilog2 \<bar>x\<bar> \<le> 53" by (simp only: pow2_le_iff)
  have e1: "expo x \<le> 1" using il by (simp add: expo_def)
  show ?thesis
  proof (cases "expo x \<le> 0")
    case True
    define k where "k = nat (- expo x)"
    have pk: "pow2 (expo x) = 1 / 2 ^ k"
      using True pow2_minus [of "- expo x"] pow2_nat [of k] by (simp add: k_def)
    have "x / pow2 (expo x) = of_int (n * 2 ^ k)" unfolding pk by (simp add: x_def)
    then have "round_half_even (x / pow2 (expo x)) = n * 2 ^ k" by (simp only: rhe_of_int)
    then have "rnd x = x" using x0 unfolding rnd_def pk by (simp add: x_def)
    then show ?thesis by (simp add: x_def)
  next
    case False
    with e1 have e: "expo x = 1" by simp
    then have "ilog2 \<bar>x\<bar> = 53" using il by (simp add: expo_def)
    with ilog2_bounds [OF ax] have "pow2 53 \<le> \<bar>x\<bar>" by simp
    with le have "\<bar>x\<bar> = pow2 53" by simp
    then have "of_int \<bar>n\<bar> = (of_int (2 ^ 53) :: rat)" using pow2_nat [of 53] by (simp add: x_def)
    then have "\<bar>n\<bar> = 2 ^ 53" by (simp only: of_int_eq_iff)
    then consider "n = 2 ^ 53" | "n = - (2 ^ 53)" by linarith
    then show ?thesis
    proof cases
      case 1
      have "x / pow2 1 = of_int (2 ^ 52)" using pow2_nat [of 1] by (simp add: x_def 1)
      then have "round_half_even (x / pow2 1) = 2 ^ 52" by (simp only: rhe_of_int)
      then have "rnd x = x" using x0 e pow2_nat [of 1] by (simp add: rnd_def x_def 1)
      then show ?thesis by (simp add: x_def)
    next
      case 2
      have "x / pow2 1 = of_int (- (2 ^ 52))" using pow2_nat [of 1] by (simp add: x_def 2)
      then have "round_half_even (x / pow2 1) = - (2 ^ 52)" by (simp only: rhe_of_int)
      then have "rnd x = x" using x0 e pow2_nat [of 1] by (simp add: rnd_def x_def 2)
      then show ?thesis by (simp add: x_def)
    qed
  qed
qed simp

lemma floor_rat_numeral: "\<lfloor>numeral a / numeral b :: rat\<rfloor> = numeral a div numeral b"
  using floor_divide_of_int_eq [of "numeral a" "numeral b", where ?'a = rat] by simp

section \<open>Python operators\<close>

text \<open>
  The operators the conversions use, on every value they can be applied to: \<open>/\<close>
  (\<open>py_truediv\<close>), \<open>*\<close> (\<open>py_mul\<close>), \<open>float(...)\<close> (\<open>py_float\<close>) and \<open>round(...)\<close>
  (\<open>py_round\<close>). A raised exception is \<open>Inl\<close>. An \<open>int\<close> operand of a float operation
  is converted first (\<open>float_of_int\<close>, OverflowError beyond the doubles); \<open>int / int\<close> rounds
  the exact quotient once. \<open>bool\<close> is a subclass of \<open>int\<close>. The conversion of a string by
  \<open>float\<close> is a parameter \<open>str_to_float\<close> (\<open>None\<close> where Python raises ValueError).
\<close>

definition and_then :: "pyerror + 'a \<Rightarrow> ('a \<Rightarrow> pyerror + 'b) \<Rightarrow> pyerror + 'b" where
  "and_then r f = (case r of Inl e \<Rightarrow> Inl e | Inr x \<Rightarrow> f x)"

definition round_to_float :: "rat \<Rightarrow> pyfloat" where
  "round_to_float q =
     (let r = rnd q
      in if 2 ^ 1024 \<le> r then PInf else if r \<le> - (2 ^ 1024) then NInf else Fin r)"

definition float_of_int :: "int \<Rightarrow> pyerror + pyfloat" where
  "float_of_int n =
     (let r = rnd (of_int n)
      in if 2 ^ 1024 \<le> \<bar>r\<bar> then Inl OverflowError else Inr (Fin r))"

fun fneg :: "pyfloat \<Rightarrow> pyfloat" where
  "fneg (Fin x) = Fin (- x)"
| "fneg PInf = NInf"
| "fneg NInf = PInf"
| "fneg NaN = NaN"

fun fdiv :: "pyfloat \<Rightarrow> pyfloat \<Rightarrow> pyerror + pyfloat" where
  "fdiv a (Fin y) =
     (if y = 0 then Inl ZeroDivisionError
      else Inr (case a of
                  Fin x \<Rightarrow> round_to_float (x / y)
                | NaN \<Rightarrow> NaN
                | _ \<Rightarrow> (if 0 < y then a else fneg a)))"
| "fdiv a NaN = Inr NaN"
| "fdiv (Fin x) b = Inr (Fin 0)"
| "fdiv a b = Inr NaN"

fun fmul :: "pyfloat \<Rightarrow> pyfloat \<Rightarrow> pyfloat" where
  "fmul (Fin x) (Fin y) = round_to_float (x * y)"
| "fmul NaN b = NaN"
| "fmul a NaN = NaN"
| "fmul (Fin x) b = (if x = 0 then NaN else if 0 < x then b else fneg b)"
| "fmul a (Fin y) = (if y = 0 then NaN else if 0 < y then a else fneg a)"
| "fmul a b = (if a = b then PInf else NInf)"

datatype num = NInt int | NFloat pyfloat

fun as_num :: "pyval \<Rightarrow> num option" where
  "as_num (PBool b) = Some (NInt (if b then 1 else 0))"
| "as_num (PInt i) = Some (NInt i)"
| "as_num (PFloat f) = Some (NFloat f)"
| "as_num v = None"

fun to_float :: "num \<Rightarrow> pyerror + pyfloat" where
  "to_float (NInt i) = float_of_int i"
| "to_float (NFloat f) = Inr f"

definition int_truediv :: "int \<Rightarrow> int \<Rightarrow> pyerror + pyval" where
  "int_truediv x y =
     (if y = 0 then Inl ZeroDivisionError
      else let r = rnd (of_int x / of_int y)
           in if 2 ^ 1024 \<le> \<bar>r\<bar> then Inl OverflowError else Inr (PFloat (Fin r)))"

fun num_truediv :: "num \<Rightarrow> num \<Rightarrow> pyerror + pyval" where
  "num_truediv (NInt x) (NInt y) = int_truediv x y"
| "num_truediv a b =
     and_then (to_float a) (\<lambda>fa. and_then (to_float b) (\<lambda>fb.
       and_then (fdiv fa fb) (\<lambda>r. Inr (PFloat r))))"

definition py_truediv :: "pyval \<Rightarrow> pyval \<Rightarrow> pyerror + pyval" where
  "py_truediv a b =
     (case (as_num a, as_num b) of
        (Some x, Some y) \<Rightarrow> num_truediv x y
      | _ \<Rightarrow> Inl TypeError)"

fun num_mul :: "num \<Rightarrow> num \<Rightarrow> pyerror + pyval" where
  "num_mul (NInt x) (NInt y) = Inr (PInt (x * y))"
| "num_mul a b =
     and_then (to_float a) (\<lambda>fa. and_then (to_float b) (\<lambda>fb. Inr (PFloat (fmul fa fb))))"

fun as_index :: "pyval \<Rightarrow> int option" where
  "as_index (PBool b) = Some (if b then 1 else 0)"
| "as_index (PInt i) = Some i"
| "as_index v = None"

definition py_mul :: "pyval \<Rightarrow> pyval \<Rightarrow> pyerror + pyval" where
  "py_mul a b =
     (case (as_num a, as_num b) of
        (Some x, Some y) \<Rightarrow> num_mul x y
      | _ \<Rightarrow>
        (case (a, as_index b) of
           (PStr s, Some n) \<Rightarrow> Inr (PStr (concat (replicate (nat n) s)))
         | (PList xs, Some n) \<Rightarrow> Inr (PList (concat (replicate (nat n) xs)))
         | _ \<Rightarrow>
           (case (as_index a, b) of
              (Some n, PStr s) \<Rightarrow> Inr (PStr (concat (replicate (nat n) s)))
            | (Some n, PList xs) \<Rightarrow> Inr (PList (concat (replicate (nat n) xs)))
            | _ \<Rightarrow> Inl TypeError)))"

definition py_float :: "(string \<Rightarrow> pyfloat option) \<Rightarrow> pyval \<Rightarrow> pyerror + pyfloat" where
  "py_float str_to_float v =
     (case v of
        PStr s \<Rightarrow> (case str_to_float s of None \<Rightarrow> Inl ValueError | Some f \<Rightarrow> Inr f)
      | _ \<Rightarrow> (case as_num v of None \<Rightarrow> Inl TypeError | Some x \<Rightarrow> to_float x))"

fun py_round :: "pyval \<Rightarrow> pyerror + pyval" where
  "py_round (PFloat (Fin r)) = Inr (PInt (round_half_even r))"
| "py_round (PFloat NaN) = Inl ValueError"
| "py_round (PFloat f) = Inl OverflowError"
| "py_round (PInt i) = Inr (PInt i)"
| "py_round (PBool b) = Inr (PInt (if b then 1 else 0))"
| "py_round v = Inl TypeError"

section \<open>The conversion functions\<close>

text \<open>
  \<^verbatim>\<open>
  def _process_temperature(value):
      if value is not None:
          return value / 10.0
      return None

  def _process_pressure(value):
      if value is not None:
          return float(value) * .1
      return None

  def _process_bypass_position(value):
      if value is not None:
          return round((value / 255) * 100)
      return None
  \<close>
  The other conversions return their argument. \<open>float_0_1\<close> is the literal \<open>.1\<close>, the
  double nearest to one tenth. \<open>num_value\<close> is the number a finite numeric value stands for.
\<close>

definition float_0_1 :: pyfloat where
  "float_0_1 = Fin (3602879701896397 / 36028797018963968)"

definition process_node_temperature :: "pyval \<Rightarrow> pyval" where
  "process_node_temperature v = (if v \<noteq> PNone then v else PNone)"

definition process_node_humidity :: "pyval \<Rightarrow> pyval" where
  "process_node_humidity v = (if v \<noteq> PNone then v else PNone)"

definition process_node_co2 :: "pyval \<Rightarrow> pyval" where
  "process_node_co2 v = (if v \<noteq> PNone then v else PNone)"

definition process_node_iaq :: "pyval \<Rightarrow> pyval" where
  "process_node_iaq v = (if v \<noteq> PNone then v else PNone)"

definition process_temperature :: "pyval \<Rightarrow> pyerror + pyval" where
  "process_temperature v =
     (if v \<noteq> PNone then py_truediv v (PFloat (Fin 10)) else Inr PNone)"

definition process_speed :: "pyval \<Rightarrow> pyval" where
  "process_speed v = (if v \<noteq> PNone then v else PNone)"

definition process_pressure :: "(string \<Rightarrow> pyfloat option) \<Rightarrow> pyval \<Rightarrow> pyerror + pyval" where
  "process_pressure str_to_float v =
     (if v \<noteq> PNone
      then and_then (py_float str_to_float v) (\<lambda>f. py_mul (PFloat f) (PFloat float_0_1))
      else Inr PNone)"

definition process_rssi :: "pyval \<Rightarrow> pyval" where
  "process_rssi v = (if v \<noteq> PNone then v else PNone)"

definition process_uptime :: "pyval \<Rightarrow> pyval" where
  "process_uptime v = (if v \<noteq> PNone then v else PNone)"

definition process_timefilterremain :: "pyval \<Rightarrow> pyval" where
  "process_timefilterremain v = (if v \<noteq> PNone then v else PNone)"

definition process_bypass_position :: "pyval \<Rightarrow> pyerror + pyval" where
  "process_bypass_position v =
     (if v \<noteq> PNone
      then and_then (and_then (py_truediv v (PInt 255)) (\<lambda>q. py_mul q (PInt 100))) py_round
      else Inr PNone)"


definition num_value :: "pyval \<Rightarrow> rat option" where
  "num_value v =
     (case v of
        PBool b \<Rightarrow> Some (if b then 1 else 0)
      | PInt i \<Rightarrow> Some (of_int i)
      | PFloat (Fin r) \<Rightarrow> Some r
      | _ \<Rightarrow> None)"

lemma rnd_bounded:
  assumes "\<bar>x\<bar> \<le> of_int m" "m \<le> 2 ^ 53"
  shows "\<bar>rnd x\<bar> \<le> of_int m"
proof -
  have m0: "0 \<le> m" using assms(1) by (smt (verit) abs_ge_zero of_int_nonneg of_int_le_iff of_int_0 order_trans)
  have am: "\<bar>m\<bar> \<le> 2 ^ 53" "\<bar>- m\<bar> \<le> 2 ^ 53" using m0 assms(2) by simp_all
  have "x \<le> of_int m" using assms(1) by linarith
  then have "rnd x \<le> rnd (of_int m)" by (rule rnd_mono)
  then have 1: "rnd x \<le> of_int m" using rnd_of_int [OF am(1)] by simp
  have "- of_int m \<le> x" using assms(1) by linarith
  then have "of_int (- m) \<le> x" by simp
  then have "rnd (of_int (- m)) \<le> rnd x" by (rule rnd_mono)
  then have "of_int (- m) \<le> rnd x" using rnd_of_int [OF am(2)] by simp
  then have 2: "- of_int m \<le> rnd x" by simp
  show ?thesis using 1 2 by linarith
qed

lemma float_of_int_small:
  assumes "\<bar>n\<bar> \<le> 2 ^ 53"
  shows "float_of_int n = Inr (Fin (of_int n))"
proof -
  have "\<bar>of_int n :: rat\<bar> = of_int \<bar>n\<bar>" by simp
  also have "\<dots> \<le> of_int (2 ^ 53)" using assms by (simp only: of_int_le_iff)
  also have "\<dots> < 2 ^ 1024" by simp
  finally have "\<not> 2 ^ 1024 \<le> \<bar>of_int n :: rat\<bar>" by simp
  then show ?thesis using rnd_of_int [OF assms] by (simp add: float_of_int_def)
qed

lemma round_to_float_small:
  assumes "\<bar>x\<bar> \<le> of_int m" "m \<le> 2 ^ 53"
  shows "round_to_float x = Fin (rnd x)"
proof -
  have "\<bar>rnd x\<bar> \<le> of_int m" using assms by (rule rnd_bounded)
  also have "(of_int m :: rat) \<le> of_int (2 ^ 53)" using assms(2) by (simp only: of_int_le_iff)
  also have "\<dots> < 2 ^ 1024" by simp
  finally have "\<bar>rnd x\<bar> < 2 ^ 1024" .
  then have "\<not> 2 ^ 1024 \<le> rnd x" "\<not> rnd x \<le> - (2 ^ 1024)" by linarith+
  then show ?thesis by (simp add: round_to_float_def)
qed

section \<open>Temperature: division by ten\<close>

lemma float_of_int_10: "float_of_int 10 = Inr (Fin 10)"
  using float_of_int_small [of 10] by simp

lemma rnd_2_1024: "rnd (2 ^ 1024) = 2 ^ 1024"
proof -
  have e: "expo (2 ^ 1024) = 972"
    by (rule expo_at) (simp_all add: pow2_def)
  have "rnd (2 ^ 1024) = of_int (round_half_even (2 ^ 1024 / pow2 972)) * pow2 972"
    by (rule rnd_at [OF _ e]) simp
  also have "2 ^ 1024 / pow2 972 = of_int (2 ^ 52)" by (simp add: pow2_def)
  also have "of_int (round_half_even (of_int (2 ^ 52))) * pow2 972 = 2 ^ 1024"
    by (simp only: rhe_of_int) (simp add: pow2_def)
  finally show ?thesis .
qed

lemma float_of_int_overflow:
  assumes "2 ^ 1024 \<le> \<bar>n\<bar>"
  shows "float_of_int n = Inl OverflowError"
proof -
  have big: "2 ^ 1024 \<le> rnd (of_int \<bar>n\<bar>)"
  proof -
    have "(of_int (2 ^ 1024) :: rat) \<le> of_int \<bar>n\<bar>" using assms by (simp only: of_int_le_iff)
    then have "(2 ^ 1024 :: rat) \<le> of_int \<bar>n\<bar>" by simp
    then have "rnd (2 ^ 1024) \<le> rnd (of_int \<bar>n\<bar>)" by (rule rnd_mono)
    then show ?thesis by (simp only: rnd_2_1024)
  qed
  have "\<bar>rnd (of_int n)\<bar> = rnd (of_int \<bar>n\<bar>)"
  proof (cases "0 \<le> n")
    case True
    then have "0 \<le> rnd (of_int n)" by (intro rnd_nonneg) simp
    then show ?thesis using True by simp
  next
    case False
    then have "rnd (of_int \<bar>n\<bar>) = - rnd (of_int n)" using rnd_minus [of "of_int n"] by simp
    moreover have "0 \<le> rnd (of_int \<bar>n\<bar>)" by (intro rnd_nonneg) simp
    ultimately show ?thesis by simp
  qed
  with big show ?thesis by (simp add: float_of_int_def)
qed

lemma truediv_10_small:
  assumes "\<bar>n\<bar> \<le> 2 ^ 53"
  shows "py_truediv (PInt n) (PFloat (Fin 10)) = Inr (PFloat (Fin (rnd (of_int n / 10))))"
    and "py_truediv (PInt n) (PInt 10) = Inr (PFloat (Fin (rnd (of_int n / 10))))"
proof -
  have "\<bar>of_int n / 10 :: rat\<bar> \<le> \<bar>of_int n\<bar>" by simp
  also have "\<dots> = of_int \<bar>n\<bar>" by simp
  also have "\<dots> \<le> of_int (2 ^ 53)" using assms by (simp only: of_int_le_iff)
  finally have b: "\<bar>of_int n / 10 :: rat\<bar> \<le> of_int (2 ^ 53)" .
  have r: "round_to_float (of_int n / 10) = Fin (rnd (of_int n / 10))"
    using b by (rule round_to_float_small) simp
  show "py_truediv (PInt n) (PFloat (Fin 10)) = Inr (PFloat (Fin (rnd (of_int n / 10))))"
    by (simp add: py_truediv_def and_then_def float_of_int_small [OF assms] r)
  have "\<bar>rnd (of_int n / 10)\<bar> \<le> of_int (2 ^ 53)" using b by (rule rnd_bounded) simp
  also have "(of_int (2 ^ 53) :: rat) < 2 ^ 1024" by simp
  finally have "\<not> 2 ^ 1024 \<le> \<bar>rnd (of_int n / 10)\<bar>" by simp
  then show "py_truediv (PInt n) (PInt 10) = Inr (PFloat (Fin (rnd (of_int n / 10))))"
    by (simp add: py_truediv_def int_truediv_def)
qed

text \<open>
  C2, as amended. \<open>_process_temperature(None)\<close> is \<open>None\<close>. For every float, every bool and
  every int of magnitude at most \<open>2 ^ 53\<close> the result is Python's \<open>v / 10\<close>, for such an int
  the double nearest to the exact quotient. For every int the result is
  \<open>float(v) / 10.0\<close>: the int is converted to a double first, and an int of magnitude
  \<open>2 ^ 1024\<close> or more raises OverflowError.
\<close>

theorem process_temperature_divides:
  "process_temperature PNone = Inr PNone
   \<and> (\<forall>f. process_temperature (PFloat f) = py_truediv (PFloat f) (PInt 10))
   \<and> (\<forall>n. \<bar>n\<bar> \<le> 2 ^ 53 \<longrightarrow>
          process_temperature (PInt n) = py_truediv (PInt n) (PInt 10)
        \<and> process_temperature (PInt n) = Inr (PFloat (Fin (rnd (of_int n / 10)))))
   \<and> (\<forall>b. process_temperature (PBool b) = py_truediv (PBool b) (PInt 10))
   \<and> (\<forall>n. process_temperature (PInt n) =
          and_then (float_of_int n) (\<lambda>f. py_truediv (PFloat f) (PFloat (Fin 10))))
   \<and> (\<forall>n. 2 ^ 1024 \<le> \<bar>n\<bar> \<longrightarrow> process_temperature (PInt n) = Inl OverflowError)"
proof -
  have none: "process_temperature PNone = Inr PNone"
    by (simp add: process_temperature_def)
  have flt: "\<forall>f. process_temperature (PFloat f) = py_truediv (PFloat f) (PInt 10)"
    by (simp add: process_temperature_def py_truediv_def float_of_int_10 and_then_def)
  have small: "\<forall>n. \<bar>n\<bar> \<le> 2 ^ 53 \<longrightarrow>
          process_temperature (PInt n) = py_truediv (PInt n) (PInt 10)
        \<and> process_temperature (PInt n) = Inr (PFloat (Fin (rnd (of_int n / 10))))"
    by (simp add: process_temperature_def truediv_10_small)
  have bool: "\<forall>b. process_temperature (PBool b) = py_truediv (PBool b) (PInt 10)"
  proof
    fix b
    have "\<bar>if b then 1 else 0 :: int\<bar> \<le> 2 ^ 53" by simp
    from truediv_10_small [OF this] show "process_temperature (PBool b) = py_truediv (PBool b) (PInt 10)"
      by (simp add: process_temperature_def py_truediv_def)
  qed
  have conv: "\<forall>n. process_temperature (PInt n) =
          and_then (float_of_int n) (\<lambda>f. py_truediv (PFloat f) (PFloat (Fin 10)))"
    by (simp add: process_temperature_def py_truediv_def and_then_def split: sum.splits)
  have ovf: "\<forall>n. 2 ^ 1024 \<le> \<bar>n\<bar> \<longrightarrow> process_temperature (PInt n) = Inl OverflowError"
    by (simp add: process_temperature_def py_truediv_def and_then_def float_of_int_overflow)
  show ?thesis using none flt small bool conv ovf by blast
qed

theorem process_temperature_divides_witness:
  "\<bar>215 :: int\<bar> \<le> 2 ^ 53
   \<and> process_temperature (PInt 215) = py_truediv (PInt 215) (PInt 10)
   \<and> process_temperature (PInt 215) = Inr (PFloat (Fin (43 / 2)))
   \<and> (2 :: int) ^ 1024 \<le> \<bar>2 ^ 1024\<bar>
   \<and> process_temperature (PInt (2 ^ 1024)) = Inl OverflowError"
proof -
  have e: "expo (rat_of_int 215 / 10) = - 48"
    by (rule expo_at) (simp_all add: pow2_def)
  have "rnd (rat_of_int 215 / 10) =
          of_int (round_half_even (rat_of_int 215 / 10 / pow2 (- 48))) * pow2 (- 48)"
    by (rule rnd_at [OF _ e]) simp
  also have "\<dots> = 43 / 2"
    by (simp add: round_half_even_def Let_def floor_rat_numeral pow2_def)
  finally have r: "rnd (rat_of_int 215 / 10) = 43 / 2" .
  have a: "\<bar>215 :: int\<bar> \<le> 2 ^ 53" by simp
  have b: "(2 :: int) ^ 1024 \<le> \<bar>2 ^ 1024\<bar>" by simp
  from process_temperature_divides have
    "\<bar>215 :: int\<bar> \<le> 2 ^ 53 \<longrightarrow>
          process_temperature (PInt 215) = py_truediv (PInt 215) (PInt 10)
        \<and> process_temperature (PInt 215) = Inr (PFloat (Fin (rnd (of_int 215 / 10))))"
    and "(2 :: int) ^ 1024 \<le> \<bar>2 ^ 1024\<bar> \<longrightarrow> process_temperature (PInt (2 ^ 1024)) = Inl OverflowError"
    by blast+
  with a b show ?thesis unfolding r by blast
qed

lemma rnd_2_1024_div_10: "rnd (rat_of_int (2 ^ 1024) / rat_of_int 10) = 7205759403792794 * 2 ^ 968"
proof -
  have e: "expo (rat_of_int (2 ^ 1024) / rat_of_int 10) = 968"
    by (rule expo_at) (simp_all add: pow2_def)
  have "rnd (rat_of_int (2 ^ 1024) / rat_of_int 10) =
          of_int (round_half_even (rat_of_int (2 ^ 1024) / rat_of_int 10 / pow2 968)) * pow2 968"
    by (rule rnd_at [OF _ e]) simp
  also have "rat_of_int (2 ^ 1024) / rat_of_int 10 / pow2 968 = 72057594037927936 / 10"
    by (simp add: pow2_def)
  also have "round_half_even (72057594037927936 / 10) = 7205759403792794"
    by (simp add: round_half_even_def Let_def floor_rat_numeral)
  finally show ?thesis by (simp add: pow2_def)
qed

text \<open>
  C2 as stated fails at the int \<open>2 ^ 1024\<close>: the conversion raises OverflowError, while
  \<open>2 ** 1024 / 10\<close> is the double \<open>7205759403792794 * 2 ^ 968\<close> (about \<open>1.8e307\<close>).
\<close>

theorem process_temperature_counterexample:
  "process_temperature (PInt (2 ^ 1024)) = Inl OverflowError
   \<and> py_truediv (PInt (2 ^ 1024)) (PInt 10) = Inr (PFloat (Fin (7205759403792794 * 2 ^ 968)))"
proof -
  have 1: "process_temperature (PInt (2 ^ 1024)) = Inl OverflowError"
    using float_of_int_overflow [of "2 ^ 1024"]
    by (simp add: process_temperature_def py_truediv_def and_then_def)
  have "\<not> (2 ^ 1024 :: rat) \<le> \<bar>7205759403792794 * 2 ^ 968\<bar>" by simp
  then have 2: "int_truediv (2 ^ 1024) 10 = Inr (PFloat (Fin (7205759403792794 * 2 ^ 968)))"
    unfolding int_truediv_def Let_def rnd_2_1024_div_10 by simp
  show ?thesis using 1 2 by (simp add: py_truediv_def)
qed

section \<open>Bypass position: 0 to 255 as a percentage\<close>

definition bypass_percent :: "rat \<Rightarrow> int" where
  "bypass_percent x = round_half_even (rnd (rnd (x / 255) * 100))"

lemma unit_fraction:
  assumes "0 \<le> x" "x \<le> 255"
  shows "0 \<le> rnd (x / 255)" "rnd (x / 255) \<le> 1" "round_to_float (x / 255) = Fin (rnd (x / 255))"
proof -
  have a: "\<bar>x / 255\<bar> \<le> of_int 1" using assms by simp
  show "0 \<le> rnd (x / 255)" using assms by (intro rnd_nonneg) simp
  show "rnd (x / 255) \<le> 1" using rnd_bounded [OF a] by simp
  show "round_to_float (x / 255) = Fin (rnd (x / 255))"
    using a by (rule round_to_float_small) simp
qed

lemma percent_product:
  assumes "0 \<le> q" "q \<le> 1"
  shows "0 \<le> rnd (q * 100)" "rnd (q * 100) \<le> 100" "round_to_float (q * 100) = Fin (rnd (q * 100))"
proof -
  have a: "\<bar>q * 100\<bar> \<le> of_int 100" using assms by simp
  show "0 \<le> rnd (q * 100)" using assms by (intro rnd_nonneg) simp
  show "rnd (q * 100) \<le> 100" using rnd_bounded [OF a] by simp
  show "round_to_float (q * 100) = Fin (rnd (q * 100))"
    using a by (rule round_to_float_small) simp
qed

lemma bypass_percent_range:
  assumes "0 \<le> x" "x \<le> 255"
  shows "0 \<le> bypass_percent x \<and> bypass_percent x \<le> 100"
proof -
  note u = unit_fraction [OF assms]
  note p = percent_product [OF u(1) u(2)]
  have "of_int 0 \<le> rnd (rnd (x / 255) * 100)" using p(1) by simp
  then have "0 \<le> bypass_percent x" unfolding bypass_percent_def by (rule rhe_ge)
  moreover have "rnd (rnd (x / 255) * 100) \<le> of_int 100" using p(2) by simp
  then have "bypass_percent x \<le> 100" unfolding bypass_percent_def by (rule rhe_le)
  ultimately show ?thesis by simp
qed

lemma bypass_percent_mono:
  assumes "x \<le> y"
  shows "bypass_percent x \<le> bypass_percent y"
proof -
  have "x / 255 \<le> y / 255" using assms by simp
  then have "rnd (x / 255) \<le> rnd (y / 255)" by (rule rnd_mono)
  then have "rnd (x / 255) * 100 \<le> rnd (y / 255) * 100" by simp
  then have "rnd (rnd (x / 255) * 100) \<le> rnd (rnd (y / 255) * 100)" by (rule rnd_mono)
  then show ?thesis unfolding bypass_percent_def by (rule rhe_mono)
qed

lemma float_of_int_255: "float_of_int 255 = Inr (Fin 255)"
  using float_of_int_small [of 255] by simp

lemma float_of_int_100: "float_of_int 100 = Inr (Fin 100)"
  using float_of_int_small [of 100] by simp

lemma int_truediv_255:
  assumes "0 \<le> (of_int i :: rat)" "(of_int i :: rat) \<le> 255"
  shows "int_truediv i 255 = Inr (PFloat (Fin (rnd (of_int i / 255))))"
proof -
  note u = unit_fraction [OF assms]
  have "\<bar>rnd (of_int i / 255)\<bar> \<le> 1" using u(1,2) by simp
  also have "(1::rat) < 2 ^ 1024" by simp
  finally have "\<not> 2 ^ 1024 \<le> \<bar>rnd (of_int i / 255)\<bar>" by simp
  then show ?thesis by (simp add: int_truediv_def)
qed

lemma truediv_255:
  assumes "num_value v = Some x" "0 \<le> x" "x \<le> 255"
  shows "py_truediv v (PInt 255) = Inr (PFloat (Fin (rnd (x / 255))))"
proof (cases v)
  case (PBool b)
  then have x: "x = of_int (if b then 1 else 0)" using assms(1) by (auto simp: num_value_def)
  show ?thesis
    using int_truediv_255 [of "if b then 1 else 0"] assms(2,3)
    unfolding x PBool by (simp add: py_truediv_def)
next
  case (PInt i)
  then have x: "x = of_int i" using assms(1) by (simp add: num_value_def)
  show ?thesis
    using int_truediv_255 [of i] assms(2,3)
    unfolding x PInt by (simp add: py_truediv_def)
next
  case (PFloat f)
  then have f: "f = Fin x" using assms(1) by (cases f) (simp_all add: num_value_def)
  have x0: "255 \<noteq> (0::rat)" by simp
  show ?thesis
    unfolding PFloat f
    by (simp add: py_truediv_def float_of_int_255 and_then_def unit_fraction(3) [OF assms(2,3)])
qed (use assms(1) in \<open>simp_all add: num_value_def\<close>)

lemma mul_100:
  assumes "0 \<le> q" "q \<le> 1"
  shows "py_mul (PFloat (Fin q)) (PInt 100) = Inr (PFloat (Fin (rnd (q * 100))))"
  by (simp add: py_mul_def float_of_int_100 and_then_def percent_product(3) [OF assms])

lemma bypass_value:
  assumes "num_value v = Some x" "0 \<le> x" "x \<le> 255"
  shows "process_bypass_position v = Inr (PInt (bypass_percent x))"
proof -
  have v: "v \<noteq> PNone" using assms(1) by (auto simp: num_value_def)
  note u = unit_fraction [OF assms(2,3)]
  show ?thesis
    using v
    by (simp add: process_bypass_position_def truediv_255 [OF assms] mul_100 [OF u(1,2)]
        and_then_def bypass_percent_def)
qed

lemma bypass_percent_0: "bypass_percent 0 = 0"
  using rhe_of_int [of 0] by (simp add: bypass_percent_def)

lemma bypass_percent_255: "bypass_percent 255 = 100"
proof -
  have "rnd 1 = 1" using rnd_of_int [of 1] by simp
  moreover have "rnd 100 = 100" using rnd_of_int [of 100] by simp
  moreover have "round_half_even 100 = 100" using rhe_of_int [of 100] by simp
  ultimately show ?thesis by (simp add: bypass_percent_def)
qed

text \<open>
  C3. \<open>_process_bypass_position(None)\<close> is \<open>None\<close>; for every other value the result is
  \<open>round((v / 255) * 100)\<close> in Python's arithmetic; 0 maps to 0 and 255 to 100; and for
  numeric \<open>v\<close>, \<open>w\<close> (bool, int or float) with \<open>0 \<le> v \<le> w \<le> 255\<close> both results are
  integers \<open>a \<le> b\<close> in the range 0 to 100: the conversion is monotone on that interval and
  stays within the percentage range.
\<close>

theorem process_bypass_position_scale:
  "process_bypass_position PNone = Inr PNone
   \<and> (v \<noteq> PNone \<longrightarrow>
        process_bypass_position v =
          and_then (and_then (py_truediv v (PInt 255)) (\<lambda>q. py_mul q (PInt 100))) py_round)
   \<and> process_bypass_position (PInt 0) = Inr (PInt 0)
   \<and> process_bypass_position (PInt 255) = Inr (PInt 100)
   \<and> (num_value v = Some x \<and> num_value w = Some y \<and> 0 \<le> x \<and> x \<le> y \<and> y \<le> 255 \<longrightarrow>
        (\<exists>a b. process_bypass_position v = Inr (PInt a)
             \<and> process_bypass_position w = Inr (PInt b)
             \<and> 0 \<le> a \<and> a \<le> b \<and> b \<le> 100))"
proof -
  have none: "process_bypass_position PNone = Inr PNone"
    by (simp add: process_bypass_position_def)
  have expr: "v \<noteq> PNone \<longrightarrow>
        process_bypass_position v =
          and_then (and_then (py_truediv v (PInt 255)) (\<lambda>q. py_mul q (PInt 100))) py_round"
    by (simp add: process_bypass_position_def)
  have lo: "process_bypass_position (PInt 0) = Inr (PInt 0)"
    using bypass_value [of "PInt 0" 0] by (simp add: num_value_def bypass_percent_0)
  have hi: "process_bypass_position (PInt 255) = Inr (PInt 100)"
    using bypass_value [of "PInt 255" 255] by (simp add: num_value_def bypass_percent_255)
  have mono: "\<exists>a b. process_bypass_position v = Inr (PInt a)
             \<and> process_bypass_position w = Inr (PInt b)
             \<and> 0 \<le> a \<and> a \<le> b \<and> b \<le> 100"
    if h: "num_value v = Some x" "num_value w = Some y" "0 \<le> x" "x \<le> y" "y \<le> 255"
  proof -
    have 1: "process_bypass_position v = Inr (PInt (bypass_percent x))"
      using h by (intro bypass_value) simp_all
    have 2: "process_bypass_position w = Inr (PInt (bypass_percent y))"
      using h by (intro bypass_value) simp_all
    have 3: "0 \<le> bypass_percent x" using bypass_percent_range [of x] h by simp
    have 4: "bypass_percent y \<le> 100" using bypass_percent_range [of y] h by simp
    have 5: "bypass_percent x \<le> bypass_percent y" using h(4) by (rule bypass_percent_mono)
    show ?thesis using 1 2 3 4 5 by blast
  qed
  show ?thesis using none expr lo hi mono by blast
qed

theorem process_bypass_position_scale_witness:
  "PInt 10 \<noteq> PNone \<and> num_value (PInt 10) = Some 10 \<and> num_value (PFloat (Fin 200)) = Some 200
   \<and> (0::rat) \<le> 10 \<and> (10::rat) \<le> 200 \<and> (200::rat) \<le> 255
   \<and> process_bypass_position (PInt 10) =
       and_then (and_then (py_truediv (PInt 10) (PInt 255)) (\<lambda>q. py_mul q (PInt 100))) py_round
   \<and> (\<exists>a b. process_bypass_position (PInt 10) = Inr (PInt a)
          \<and> process_bypass_position (PFloat (Fin 200)) = Inr (PInt b)
          \<and> 0 \<le> a \<and> a \<le> b \<and> b \<le> 100)"
proof -
  have h: "PInt 10 \<noteq> PNone" "num_value (PInt 10) = Some 10"
    "num_value (PFloat (Fin 200)) = Some 200" "(0::rat) \<le> 10" "(10::rat) \<le> 200"
    "(200::rat) \<le> 255"
    by (simp_all add: num_value_def)
  with process_bypass_position_scale [of "PInt 10" 10 "PFloat (Fin 200)" 200]
  show ?thesis by blast
qed

section \<open>Pressure: multiplication by one tenth\<close>

lemma float_0_1_nearest: "float_0_1 = Fin (rnd (1 / 10))"
proof -
  have e: "expo (1 / 10) = - 56"
    by (rule expo_at) (simp_all add: pow2_def)
  have "rnd (1 / 10) = of_int (round_half_even (1 / 10 / pow2 (- 56))) * pow2 (- 56)"
    by (rule rnd_at [OF _ e]) simp
  also have "\<dots> = 3602879701896397 / 36028797018963968"
    by (simp add: round_half_even_def Let_def floor_rat_numeral pow2_def)
  finally show ?thesis by (simp add: float_0_1_def)
qed

lemma rnd_three_tenths: "rnd (rat_of_int 3 / rat_of_int 10) = 5404319552844595 / 18014398509481984"
proof -
  have e: "expo (rat_of_int 3 / rat_of_int 10) = - 54"
    by (rule expo_at) (simp_all add: pow2_def)
  have "rnd (rat_of_int 3 / rat_of_int 10) =
          of_int (round_half_even (rat_of_int 3 / rat_of_int 10 / pow2 (- 54))) * pow2 (- 54)"
    by (rule rnd_at [OF _ e]) simp
  also have "\<dots> = 5404319552844595 / 18014398509481984"
    by (simp add: round_half_even_def Let_def floor_rat_numeral pow2_def)
  finally show ?thesis .
qed

lemma rnd_three_times_tenth:
  "rnd (rat_of_int 3 * (3602879701896397 / 36028797018963968)) =
     5404319552844596 / 18014398509481984"
proof -
  have e: "expo (rat_of_int 3 * (3602879701896397 / 36028797018963968)) = - 54"
    by (rule expo_at) (simp_all add: pow2_def)
  have "rnd (rat_of_int 3 * (3602879701896397 / 36028797018963968)) =
          of_int (round_half_even (rat_of_int 3 * (3602879701896397 / 36028797018963968)
             / pow2 (- 54))) * pow2 (- 54)"
    by (rule rnd_at [OF _ e]) simp
  also have "\<dots> = 5404319552844596 / 18014398509481984"
    by (simp add: round_half_even_def Let_def floor_rat_numeral pow2_def)
  finally show ?thesis .
qed

text \<open>
  C4 as stated fails at 3: \<open>float(3) * .1\<close> is \<open>0.30000000000000004\<close>, the double
  \<open>5404319552844596 / 2 ^ 54\<close>, while \<open>3 / 10\<close> is \<open>0.3\<close>, the double
  \<open>5404319552844595 / 2 ^ 54\<close>.
\<close>

theorem process_pressure_counterexample:
  "process_pressure (\<lambda>s. None) (PInt 3)
     = Inr (PFloat (Fin (5404319552844596 / 18014398509481984)))
   \<and> py_truediv (PInt 3) (PInt 10)
     = Inr (PFloat (Fin (5404319552844595 / 18014398509481984)))
   \<and> process_pressure (\<lambda>s. None) (PInt 3) \<noteq> py_truediv (PInt 3) (PInt 10)"
proof -
  have f3: "float_of_int 3 = Inr (Fin (rat_of_int 3))"
    by (rule float_of_int_small) simp
  have "\<bar>rat_of_int 3 * (3602879701896397 / 36028797018963968)\<bar> \<le> of_int 1" by simp
  then have "round_to_float (rat_of_int 3 * (3602879701896397 / 36028797018963968)) =
               Fin (rnd (rat_of_int 3 * (3602879701896397 / 36028797018963968)))"
    by (rule round_to_float_small) simp
  then have m: "fmul (Fin (rat_of_int 3)) float_0_1 = Fin (5404319552844596 / 18014398509481984)"
    unfolding float_0_1_def fmul.simps rnd_three_times_tenth .
  have 1: "process_pressure (\<lambda>s. None) (PInt 3)
     = Inr (PFloat (Fin (5404319552844596 / 18014398509481984)))"
    unfolding process_pressure_def py_float_def
    by (simp add: f3 and_then_def py_mul_def m del: of_int_numeral)
  have 2: "py_truediv (PInt 3) (PInt 10)
     = Inr (PFloat (Fin (5404319552844595 / 18014398509481984)))"
  proof -
    have "int_truediv 3 10 = Inr (PFloat (Fin (5404319552844595 / 18014398509481984)))"
      unfolding int_truediv_def Let_def rnd_three_tenths by simp
    then show ?thesis by (simp add: py_truediv_def)
  qed
  show ?thesis unfolding 1 2 by simp
qed

text \<open>
  C4, as amended. \<open>_process_pressure(None)\<close> is \<open>None\<close>; for every numeric value (bool, int
  or float) the result is Python's \<open>v * 0.1\<close>, the product with the double nearest to one
  tenth rounded to a double: an int too large for a double raises OverflowError, and for
  an int of magnitude at most \<open>2 ^ 53\<close> the result is the double nearest to the exact product
  of the int and that double. No equality with \<open>v / 10\<close> is claimed.
\<close>

theorem process_pressure_scales:
  "process_pressure str_to_float PNone = Inr PNone
   \<and> (as_num v \<noteq> None \<longrightarrow> process_pressure str_to_float v = py_mul v (PFloat float_0_1))
   \<and> float_0_1 = Fin (rnd (1 / 10))
   \<and> (\<forall>n. 2 ^ 1024 \<le> \<bar>n\<bar> \<longrightarrow> process_pressure str_to_float (PInt n) = Inl OverflowError)
   \<and> (\<forall>n. \<bar>n\<bar> \<le> 2 ^ 53 \<longrightarrow>
         process_pressure str_to_float (PInt n) =
           Inr (PFloat (Fin (rnd (of_int n * (3602879701896397 / 36028797018963968))))))"
proof -
  have none: "process_pressure str_to_float PNone = Inr PNone"
    by (simp add: process_pressure_def)
  have num: "as_num v \<noteq> None \<longrightarrow> process_pressure str_to_float v = py_mul v (PFloat float_0_1)"
    by (cases v)
      (simp_all add: process_pressure_def py_float_def py_mul_def and_then_def split: sum.splits)
  have ovf: "\<forall>n. 2 ^ 1024 \<le> \<bar>n\<bar> \<longrightarrow> process_pressure str_to_float (PInt n) = Inl OverflowError"
    by (simp add: process_pressure_def py_float_def and_then_def float_of_int_overflow)
  have small: "process_pressure str_to_float (PInt n) =
           Inr (PFloat (Fin (rnd (of_int n * (3602879701896397 / 36028797018963968)))))"
    if n: "\<bar>n\<bar> \<le> 2 ^ 53" for n
  proof -
    have "\<bar>of_int n * (3602879701896397 / 36028797018963968) :: rat\<bar>
            = \<bar>of_int n\<bar> * (3602879701896397 / 36028797018963968)"
      by (simp add: abs_mult)
    also have "\<dots> \<le> \<bar>of_int n\<bar> * 1"
      by (intro mult_left_mono) simp_all
    also have "\<dots> = of_int \<bar>n\<bar>" by simp
    also have "\<dots> \<le> of_int (2 ^ 53)" using n by (simp only: of_int_le_iff)
    finally have "round_to_float (of_int n * (3602879701896397 / 36028797018963968)) =
               Fin (rnd (of_int n * (3602879701896397 / 36028797018963968)))"
      by (rule round_to_float_small) simp
    then show ?thesis
      by (simp add: process_pressure_def py_float_def and_then_def py_mul_def
          float_of_int_small [OF n] float_0_1_def)
  qed
  show ?thesis using none num float_0_1_nearest ovf small by blast
qed

theorem process_pressure_scales_witness:
  "as_num (PInt 3) \<noteq> None
   \<and> process_pressure (\<lambda>s. None) (PInt 3) = py_mul (PInt 3) (PFloat float_0_1)
   \<and> \<bar>3 :: int\<bar> \<le> 2 ^ 53
   \<and> process_pressure (\<lambda>s. None) (PInt 3) =
        Inr (PFloat (Fin (rnd (of_int 3 * (3602879701896397 / 36028797018963968)))))
   \<and> (2 :: int) ^ 1024 \<le> \<bar>2 ^ 1024\<bar>
   \<and> process_pressure (\<lambda>s. None) (PInt (2 ^ 1024)) = Inl OverflowError"
proof -
  have h: "as_num (PInt 3) \<noteq> None" "\<bar>3 :: int\<bar> \<le> 2 ^ 53" "(2 :: int) ^ 1024 \<le> \<bar>2 ^ 1024\<bar>"
    by simp_all
  with process_pressure_scales [of "\<lambda>s. None" "PInt 3"] show ?thesis by blast
qed

section \<open>The store\<close>

text \<open>
  A dict or a list is an object with an identity: the coordinator keeps a reference to
  the mapping it caches and hands that reference to an accessor, which could write
  through it. So the box accessors run on a store: a value is an immutable value
  (\<open>Val\<close>) or a reference (\<open>Ref\<close>) to a dict or list object, and every operation takes the store
  and returns it, changed or not. \<open>isinstance\<close> and \<open>dict.get\<close> read the store;
  \<open>dict_setitem\<close>, the assignment \<open>d[k] = x\<close>, writes it. \<open>safe_get_h\<close> is \<open>safe_get\<close> on the
  store: the same loop, its two operations threaded through the store; \<open>.get\<close> on a value
  that is not a dict raises AttributeError, which the \<open>isinstance\<close> guard excludes.

  An accessor of the box table is \<open>lambda data: f(safe_get(data, ...))\<close>: \<open>then_apply\<close>
  passes the value found, or the exception, to the conversion. The three arithmetic
  conversions begin with \<open>/\<close> or \<open>float\<close> on their argument, which raises TypeError on a dict
  or a list (a reference is not \<open>None\<close>); on any other value they are the functions above
  (\<open>on_value\<close>). The other conversions return their argument, a reference included
  (\<open>returned\<close>).
\<close>

type_synonym addr = nat

datatype hval = Val pyval | Ref addr

datatype hobj = DictObj "(string \<times> hval) list" | ListObj "hval list"

type_synonym heap = "addr \<Rightarrow> hobj option"

type_synonym accessor = "hval \<Rightarrow> heap \<Rightarrow> (pyerror + hval) \<times> heap"

definition isinstance_dict :: "hval \<Rightarrow> heap \<Rightarrow> bool \<times> heap" where
  "isinstance_dict v h =
     (case v of
        Val x \<Rightarrow> is_dict x
      | Ref a \<Rightarrow> (case h a of Some (DictObj items) \<Rightarrow> True | _ \<Rightarrow> False),
      h)"

definition dict_get_method :: "hval \<Rightarrow> string \<Rightarrow> heap \<Rightarrow> (pyerror + hval) \<times> heap" where
  "dict_get_method v k h =
     (case v of
        Val x \<Rightarrow> (case x of PDict d \<Rightarrow> Inr (Val (dict_get d k)) | _ \<Rightarrow> Inl AttributeError)
      | Ref a \<Rightarrow>
          (case h a of
             Some (DictObj items) \<Rightarrow>
               Inr (case map_of items k of None \<Rightarrow> Val PNone | Some x \<Rightarrow> x)
           | _ \<Rightarrow> Inl AttributeError),
      h)"

definition dict_setitem :: "hval \<Rightarrow> string \<Rightarrow> hval \<Rightarrow> heap \<Rightarrow> (pyerror + hval) \<times> heap" where
  "dict_setitem v k x h =
     (case v of
        Val y \<Rightarrow> (Inl TypeError, h)
      | Ref a \<Rightarrow>
          (case h a of
             Some (DictObj items) \<Rightarrow>
               (Inr (Val PNone),
                h(a \<mapsto> DictObj (if k \<in> fst ` set items
                                  then map (\<lambda>(k', x'). if k' = k then (k', x) else (k', x')) items
                                  else items @ [(k, x)])))
           | _ \<Rightarrow> (Inl TypeError, h)))"

fun safe_get_h :: "hval \<Rightarrow> string list \<Rightarrow> heap \<Rightarrow> (pyerror + hval) \<times> heap" where
  "safe_get_h data [] h = (Inr data, h)"
| "safe_get_h data (key # keys) h =
     (case isinstance_dict data h of
        (True, h1) \<Rightarrow>
          (case dict_get_method data key h1 of
             (Inr v, h2) \<Rightarrow> safe_get_h v keys h2
           | (Inl e, h2) \<Rightarrow> (Inl e, h2))
      | (False, h1) \<Rightarrow> (Inr (Val PNone), h1))"

definition then_apply ::
    "(pyerror + hval) \<times> heap \<Rightarrow> (hval \<Rightarrow> pyerror + hval) \<Rightarrow> (pyerror + hval) \<times> heap" where
  "then_apply r f = (case r of (Inl e, h) \<Rightarrow> (Inl e, h) | (Inr v, h) \<Rightarrow> (f v, h))"

definition on_value :: "(pyval \<Rightarrow> pyerror + pyval) \<Rightarrow> hval \<Rightarrow> pyerror + hval" where
  "on_value f v =
     (case v of
        Val x \<Rightarrow> (case f x of Inl e \<Rightarrow> Inl e | Inr y \<Rightarrow> Inr (Val y))
      | Ref a \<Rightarrow> Inl TypeError)"

definition returned :: "(pyval \<Rightarrow> pyval) \<Rightarrow> hval \<Rightarrow> pyerror + hval" where
  "returned f v = Inr (case v of Val x \<Rightarrow> Val (f x) | Ref a \<Rightarrow> Ref a)"

lemma isinstance_dict_heap: "snd (isinstance_dict v h) = h"
  by (simp add: isinstance_dict_def)

lemma dict_get_method_heap: "snd (dict_get_method v k h) = h"
  by (simp add: dict_get_method_def)

lemma dict_get_method_of_dict:
  "fst (isinstance_dict v h) \<Longrightarrow> \<exists>x. fst (dict_get_method v k h) = Inr x"
  by (auto simp: isinstance_dict_def dict_get_method_def is_dict_def
      split: hval.splits pyval.splits option.splits hobj.splits)

lemma safe_get_h_heap: "snd (safe_get_h v keys h) = h"
proof (induction keys arbitrary: v)
  case Nil
  show ?case by simp
next
  case (Cons k keys)
  obtain b h1 where i: "isinstance_dict v h = (b, h1)" by (cases "isinstance_dict v h")
  with isinstance_dict_heap [of v h] have h1: "h1 = h" by simp
  obtain r h2 where g: "dict_get_method v k h = (r, h2)" by (cases "dict_get_method v k h")
  with dict_get_method_heap [of v k h] have h2: "h2 = h" by simp
  show ?case using Cons.IH i g unfolding h1 h2
    by (cases b; cases r) simp_all
qed

lemma safe_get_h_returns: "\<exists>x. fst (safe_get_h v keys h) = Inr x"
proof (induction keys arbitrary: v)
  case Nil
  show ?case by simp
next
  case (Cons k keys)
  obtain b h1 where i: "isinstance_dict v h = (b, h1)" by (cases "isinstance_dict v h")
  with isinstance_dict_heap [of v h] have h1: "h1 = h" by simp
  show ?case
  proof (cases b)
    case True
    with i have "fst (isinstance_dict v h)" by simp
    from dict_get_method_of_dict [OF this, of k] obtain x
      where "fst (dict_get_method v k h) = Inr x" by blast
    with dict_get_method_heap [of v k h] have "dict_get_method v k h = (Inr x, h)"
      by (cases "dict_get_method v k h") simp
    with Cons.IH [of x] i True h1 show ?thesis by simp
  next
    case False
    with i show ?thesis by simp
  qed
qed

text \<open>
  The store refines the values: \<open>repr h v x\<close> says that in the store \<open>h\<close> the value \<open>v\<close>,
  references followed, is the value \<open>x\<close>. \<open>safe_get\<close> on the store returns, leaves the store
  as it was, and yields the representation of what \<open>safe_get\<close> yields on the value.
\<close>

inductive repr :: "heap \<Rightarrow> hval \<Rightarrow> pyval \<Rightarrow> bool" for h where
  repr_Val: "repr h (Val x) x"
| repr_Dict:
    "h a = Some (DictObj items) \<Longrightarrow> map fst items = map fst d \<Longrightarrow>
     (\<forall>i < length items. repr h (snd (items ! i)) (snd (d ! i))) \<Longrightarrow>
     repr h (Ref a) (PDict d)"
| repr_List:
    "h a = Some (ListObj vs) \<Longrightarrow> length vs = length xs \<Longrightarrow>
     (\<forall>i < length vs. repr h (vs ! i) (xs ! i)) \<Longrightarrow>
     repr h (Ref a) (PList xs)"

lemma map_of_pointwise:
  assumes "map fst xs = map fst ys" "\<forall>i < length xs. P (snd (xs ! i)) (snd (ys ! i))"
  shows "(map_of xs k = None \<longrightarrow> map_of ys k = None)
       \<and> (\<forall>v. map_of xs k = Some v \<longrightarrow> (\<exists>y. map_of ys k = Some y \<and> P v y))"
  using assms
proof (induction xs arbitrary: ys)
  case Nil
  then show ?case by simp
next
  case (Cons x xs)
  from Cons.prems(1) obtain y ys' where ys: "ys = y # ys'" and f: "fst x = fst y"
    and m: "map fst xs = map fst ys'"
    by (cases ys) auto
  have p0: "P (snd x) (snd y)" using Cons.prems(2) [rule_format, of 0] ys by simp
  have ps: "\<forall>i < length xs. P (snd (xs ! i)) (snd (ys' ! i))"
  proof (intro allI impI)
    fix i assume "i < length xs"
    then show "P (snd (xs ! i)) (snd (ys' ! i))"
      using Cons.prems(2) [rule_format, of "Suc i"] ys by simp
  qed
  from Cons.IH [OF m ps] p0 f show ?case
    unfolding ys by (cases x; cases y) auto
qed

lemma safe_get_h_refines:
  assumes "repr h v x"
  shows "\<exists>v'. safe_get_h v keys h = (Inr v', h) \<and> repr h v' (safe_get x keys)"
  using assms
proof (induction keys arbitrary: v x)
  case Nil
  then show ?case by simp
next
  case (Cons k keys)
  from Cons.prems show ?case
  proof (cases rule: repr.cases)
    case repr_Val
    show ?thesis
    proof (cases "is_dict x")
      case True
      then obtain d where d: "x = PDict d" by (cases x) (simp_all add: is_dict_def)
      have "repr h (Val (dict_get d k)) (dict_get d k)" by (rule repr.repr_Val)
      from Cons.IH [OF this] show ?thesis
        using repr_Val d by (simp add: isinstance_dict_def dict_get_method_def is_dict_def)
    next
      case False
      then have "safe_get x (k # keys) = PNone" by (cases x) (simp_all add: is_dict_def)
      with False repr_Val show ?thesis
        by (simp add: isinstance_dict_def repr.repr_Val)
    qed
  next
    case (repr_Dict a items d)
    from map_of_pointwise [OF repr_Dict(4,5), of k]
    have "repr h (case map_of items k of None \<Rightarrow> Val PNone | Some y \<Rightarrow> y) (dict_get d k)"
      by (auto simp: dict_get_def repr.repr_Val split: option.splits)
    from Cons.IH [OF this] show ?thesis
      using repr_Dict(1,2,3) by (simp add: isinstance_dict_def dict_get_method_def)
  next
    case (repr_List a vs xs)
    then show ?thesis
      by (simp add: isinstance_dict_def repr.repr_Val)
  qed
qed

section \<open>Entity descriptions and the sensor tables\<close>

text \<open>
  The two description dataclasses extend the host's \<open>SensorEntityDescription\<close>, each by a
  field \<open>value_fn\<close>, the node description also by \<open>sensor_key\<close> and \<open>node_type\<close>; the fields
  the tables set are modelled, \<open>value_fn\<close> with its type as a parameter. A box accessor
  receives the coordinator's cached mapping itself and runs on the store; a node accessor
  is a function of the node's value. Units and classes are the host's constants, kept by name; a
  unit given as a string literal is \<open>Unit_literal\<close>. Strings are byte lists, so the subscript
  two of the carbon dioxide names is its three UTF-8 bytes. \<open>SENSORS\<close> and \<open>NODE_SENSORS\<close>
  follow the source entry by entry; \<open>NODE_SENSORS\<close> is a dict, here an association list with
  one definition per node type.
\<close>

datatype unit_of_measurement =
    UnitOfTemperature_CELSIUS
  | UnitOfPressure_PA
  | UnitOfTime_SECONDS
  | UnitOfTime_DAYS
  | PERCENTAGE
  | CONCENTRATION_PARTS_PER_MILLION
  | Unit_literal string

datatype SensorStateClass = MEASUREMENT | TOTAL_INCREASING

datatype SensorDeviceClass =
  TEMPERATURE | SPEED | PRESSURE | SIGNAL_STRENGTH | DURATION | HUMIDITY | CO2

record 'f SensorEntityDescription =
  key :: string
  name :: string
  native_unit_of_measurement :: "unit_of_measurement option"
  state_class :: "SensorStateClass option"
  device_class :: "SensorDeviceClass option"
  value_fn :: 'f

type_synonym DucoboxSensorEntityDescription = "accessor SensorEntityDescription"

record DucoboxNodeSensorEntityDescription =
    "(pyval \<Rightarrow> pyerror + pyval) SensorEntityDescription" +
  sensor_key :: string
  node_type :: string

definition SENSORS :: "(string \<Rightarrow> pyfloat option) \<Rightarrow> DucoboxSensorEntityDescription list" where
  "SENSORS str_to_float =
     [
      \<lparr>key = ''TempOda'',
       name = ''Outdoor Temperature'',
       native_unit_of_measurement = Some UnitOfTemperature_CELSIUS,
       state_class = Some MEASUREMENT,
       device_class = Some TEMPERATURE,
       value_fn = (\<lambda>data h. then_apply (safe_get_h data [''Ventilation'', ''Sensor'', ''TempOda'', ''Val''] h)
                    (on_value process_temperature))\<rparr>,
      \<lparr>key = ''TempSup'',
       name = ''Supply Temperature'',
       native_unit_of_measurement = Some UnitOfTemperature_CELSIUS,
       state_class = Some MEASUREMENT,
       device_class = Some TEMPERATURE,
       value_fn = (\<lambda>data h. then_apply (safe_get_h data [''Ventilation'', ''Sensor'', ''TempSup'', ''Val''] h)
                    (on_value process_temperature))\<rparr>,
      \<lparr>key = ''TempEta'',
       name = ''Extract Temperature'',
       native_unit_of_measurement = Some UnitOfTemperature_CELSIUS,
       state_class = Some MEASUREMENT,
       device_class = Some TEMPERATURE,
       value_fn = (\<lambda>data h. then_apply (safe_get_h data [''Ventilation'', ''Sensor'', ''TempEta'', ''Val''] h)
                    (on_value process_temperature))\<rparr>,
      \<lparr>key = ''TempEha'',
       name = ''Exhaust Temperature'',
       native_unit_of_measurement = Some UnitOfTemperature_CELSIUS,
       state_class = Some MEASUREMENT,
       device_class = Some TEMPERATURE,
       value_fn = (\<lambda>data h. then_apply (safe_get_h data [''Ventilation'', ''Sensor'', ''TempEha'', ''Val''] h)
                    (on_value process_temperature))\<rparr>,
      \<lparr>key = ''SpeedSup'',
       name = ''Supply Fan Speed'',
       native_unit_of_measurement = Some (Unit_literal ''RPM''),
       state_class = Some MEASUREMENT,
       device_class = Some SPEED,
       value_fn = (\<lambda>data h. then_apply (safe_get_h data [''Ventilation'', ''Fan'', ''SpeedSup'', ''Val''] h)
                    (returned process_speed))\<rparr>,
      \<lparr>key = ''SpeedEha'',
       name = ''Exhaust Fan Speed'',
       native_unit_of_measurement = Some (Unit_literal ''RPM''),
       state_class = Some MEASUREMENT,
       device_class = Some SPEED,
       value_fn = (\<lambda>data h. then_apply (safe_get_h data [''Ventilation'', ''Fan'', ''SpeedEha'', ''Val''] h)
                    (returned process_speed))\<rparr>,
      \<lparr>key = ''PressSup'',
       name = ''Supply Pressure'',
       native_unit_of_measurement = Some UnitOfPressure_PA,
       state_class = Some MEASUREMENT,
       device_class = Some PRESSURE,
       value_fn = (\<lambda>data h. then_apply (safe_get_h data [''Ventilation'', ''Fan'', ''PressSup'', ''Val''] h)
                    (on_value (process_pressure str_to_float)))\<rparr>,
      \<lparr>key = ''PressEha'',
       name = ''Exhaust Pressure'',
       native_unit_of_measurement = Some UnitOfPressure_PA,
       state_class = Some MEASUREMENT,
       device_class = Some PRESSURE,
       value_fn = (\<lambda>data h. then_apply (safe_get_h data [''Ventilation'', ''Fan'', ''PressEha'', ''Val''] h)
                    (on_value (process_pressure str_to_float)))\<rparr>,
      \<lparr>key = ''RssiWifi'',
       name = ''Wi-Fi Signal Strength'',
       native_unit_of_measurement = Some (Unit_literal ''dBm''),
       state_class = Some MEASUREMENT,
       device_class = Some SIGNAL_STRENGTH,
       value_fn = (\<lambda>data h. then_apply (safe_get_h data [''General'', ''Lan'', ''RssiWifi'', ''Val''] h)
                    (returned process_rssi))\<rparr>,
      \<lparr>key = ''UpTime'',
       name = ''Device Uptime'',
       native_unit_of_measurement = Some UnitOfTime_SECONDS,
       state_class = Some TOTAL_INCREASING,
       device_class = Some DURATION,
       value_fn = (\<lambda>data h. then_apply (safe_get_h data [''General'', ''Board'', ''UpTime'', ''Val''] h)
                    (returned process_uptime))\<rparr>,
      \<lparr>key = ''TimeFilterRemain'',
       name = ''Filter Time Remaining'',
       native_unit_of_measurement = Some UnitOfTime_DAYS,
       state_class = Some MEASUREMENT,
       device_class = Some DURATION,
       value_fn = (\<lambda>data h. then_apply (safe_get_h data [''HeatRecovery'', ''General'', ''TimeFilterRemain'', ''Val''] h)
                    (returned process_timefilterremain))\<rparr>,
      \<lparr>key = ''BypassPos'',
       name = ''Bypass Position'',
       native_unit_of_measurement = Some PERCENTAGE,
       state_class = Some MEASUREMENT,
       device_class = None,
       value_fn = (\<lambda>data h. then_apply (safe_get_h data [''HeatRecovery'', ''Bypass'', ''Pos'', ''Val''] h)
                    (on_value process_bypass_position))\<rparr>
     ]"

definition BOX_sensors :: "DucoboxNodeSensorEntityDescription list" where
  "BOX_sensors =
     [
      \<lparr>key = ''Mode'',
       name = ''Ventilation Mode'',
       native_unit_of_measurement = None,
       state_class = None,
       device_class = None,
       value_fn = (\<lambda>node. Inr (safe_get node [''Ventilation'', ''Mode''])),
       sensor_key = ''Mode'',
       node_type = ''BOX''\<rparr>,
      \<lparr>key = ''State'',
       name = ''Ventilation State'',
       native_unit_of_measurement = None,
       state_class = None,
       device_class = None,
       value_fn = (\<lambda>node. Inr (safe_get node [''Ventilation'', ''State''])),
       sensor_key = ''State'',
       node_type = ''BOX''\<rparr>,
      \<lparr>key = ''FlowLvlTgt'',
       name = ''Flow Level Target'',
       native_unit_of_measurement = Some PERCENTAGE,
       state_class = None,
       device_class = None,
       value_fn = (\<lambda>node. Inr (safe_get node [''Ventilation'', ''FlowLvlTgt''])),
       sensor_key = ''FlowLvlTgt'',
       node_type = ''BOX''\<rparr>,
      \<lparr>key = ''TimeStateRemain'',
       name = ''Time State Remaining'',
       native_unit_of_measurement = Some UnitOfTime_SECONDS,
       state_class = None,
       device_class = None,
       value_fn = (\<lambda>node. Inr (safe_get node [''Ventilation'', ''TimeStateRemain''])),
       sensor_key = ''TimeStateRemain'',
       node_type = ''BOX''\<rparr>,
      \<lparr>key = ''TimeStateEnd'',
       name = ''Time State End'',
       native_unit_of_measurement = Some UnitOfTime_SECONDS,
       state_class = None,
       device_class = None,
       value_fn = (\<lambda>node. Inr (safe_get node [''Ventilation'', ''TimeStateEnd''])),
       sensor_key = ''TimeStateEnd'',
       node_type = ''BOX''\<rparr>,
      \<lparr>key = ''Temp'',
       name = ''Temperature'',
       native_unit_of_measurement = Some UnitOfTemperature_CELSIUS,
       state_class = None,
       device_class = Some TEMPERATURE,
       value_fn = (\<lambda>node. Inr (process_node_temperature (safe_get node [''Sensor'', ''data'', ''Temp'']))),
       sensor_key = ''Temp'',
       node_type = ''BOX''\<rparr>,
      \<lparr>key = ''Rh'',
       name = ''Relative Humidity'',
       native_unit_of_measurement = Some PERCENTAGE,
       state_class = None,
       device_class = Some HUMIDITY,
       value_fn = (\<lambda>node. Inr (process_node_humidity (safe_get node [''Sensor'', ''data'', ''Rh'']))),
       sensor_key = ''Rh'',
       node_type = ''BOX''\<rparr>,
      \<lparr>key = ''IaqRh'',
       name = ''Humidity Air Quality'',
       native_unit_of_measurement = Some PERCENTAGE,
       state_class = None,
       device_class = None,
       value_fn = (\<lambda>node. Inr (process_node_iaq (safe_get node [''Sensor'', ''data'', ''IaqRh'']))),
       sensor_key = ''IaqRh'',
       node_type = ''BOX''\<rparr>
     ]"

definition UCCO2_sensors :: "DucoboxNodeSensorEntityDescription list" where
  "UCCO2_sensors =
     [
      \<lparr>key = ''Temp'',
       name = ''Temperature'',
       native_unit_of_measurement = Some UnitOfTemperature_CELSIUS,
       state_class = None,
       device_class = Some TEMPERATURE,
       value_fn = (\<lambda>node. Inr (process_node_temperature (safe_get node [''Sensor'', ''data'', ''Temp'']))),
       sensor_key = ''Temp'',
       node_type = ''UCCO2''\<rparr>,
      \<lparr>key = ''Co2'',
       name = (''CO'' @ [CHR 0xE2, CHR 0x82, CHR 0x82]),
       native_unit_of_measurement = Some CONCENTRATION_PARTS_PER_MILLION,
       state_class = None,
       device_class = Some CO2,
       value_fn = (\<lambda>node. Inr (process_node_co2 (safe_get node [''Sensor'', ''data'', ''Co2'']))),
       sensor_key = ''Co2'',
       node_type = ''UCCO2''\<rparr>,
      \<lparr>key = ''IaqCo2'',
       name = (''CO'' @ [CHR 0xE2, CHR 0x82, CHR 0x82] @ '' Air Quality''),
       native_unit_of_measurement = Some PERCENTAGE,
       state_class = None,
       device_class = None,
       value_fn = (\<lambda>node. Inr (process_node_iaq (safe_get node [''Sensor'', ''data'', ''IaqCo2'']))),
       sensor_key = ''IaqCo2'',
       node_type = ''UCCO2''\<rparr>
     ]"

definition BSRH_sensors :: "DucoboxNodeSensorEntityDescription list" where
  "BSRH_sensors =
     [
      \<lparr>key = ''Temp'',
       name = ''Temperature'',
       native_unit_of_measurement = Some UnitOfTemperature_CELSIUS,
       state_class = None,
       device_class = Some TEMPERATURE,
       value_fn = (\<lambda>node. Inr (process_node_temperature (safe_get node [''Sensor'', ''data'', ''Temp'']))),
       sensor_key = ''Temp'',
       node_type = ''BSRH''\<rparr>,
      \<lparr>key = ''Rh'',
       name = ''Relative Humidity'',
       native_unit_of_measurement = Some PERCENTAGE,
       state_class = None,
       device_class = Some HUMIDITY,
       value_fn = (\<lambda>node. Inr (process_node_humidity (safe_get node [''Sensor'', ''data'', ''Rh'']))),
       sensor_key = ''Rh'',
       node_type = ''BSRH''\<rparr>,
      \<lparr>key = ''IaqRh'',
       name = ''Humidity Air Quality'',
       native_unit_of_measurement = Some PERCENTAGE,
       state_class = None,
       device_class = None,
       value_fn = (\<lambda>node. Inr (process_node_iaq (safe_get node [''Sensor'', ''data'', ''IaqRh'']))),
       sensor_key = ''IaqRh'',
       node_type = ''BSRH''\<rparr>
     ]"

definition VLVRH_sensors :: "DucoboxNodeSensorEntityDescription list" where
  "VLVRH_sensors =
     [
      \<lparr>key = ''State'',
       name = ''Ventilation State'',
       native_unit_of_measurement = None,
       state_class = None,
       device_class = None,
       value_fn = (\<lambda>node. Inr (safe_get node [''Ventilation'', ''State''])),
       sensor_key = ''State'',
       node_type = ''VLVRH''\<rparr>,
      \<lparr>key = ''TimeStateRemain'',
       name = ''Time State Remaining'',
       native_unit_of_measurement = Some UnitOfTime_SECONDS,
       state_class = None,
       device_class = None,
       value_fn = (\<lambda>node. Inr (safe_get node [''Ventilation'', ''TimeStateRemain''])),
       sensor_key = ''TimeStateRemain'',
       node_type = ''VLVRH''\<rparr>,
      \<lparr>key = ''TimeStateEnd'',
       name = ''Time State End'',
       native_unit_of_measurement = Some UnitOfTime_SECONDS,
       state_class = None,
       device_class = None,
       value_fn = (\<lambda>node. Inr (safe_get node [''Ventilation'', ''TimeStateEnd''])),
       sensor_key = ''TimeStateEnd'',
       node_type = ''VLVRH''\<rparr>,
      \<lparr>key = ''Mode'',
       name = ''Ventilation Mode'',
       native_unit_of_measurement = None,
       state_class = None,
       device_class = None,
       value_fn = (\<lambda>node. Inr (safe_get node [''Ventilation'', ''Mode''])),
       sensor_key = ''Mode'',
       node_type = ''VLVRH''\<rparr>,
      \<lparr>key = ''FlowLvlTgt'',
       name = ''Flow Level Target'',
       native_unit_of_measurement = Some PERCENTAGE,
       state_class = None,
       device_class = None,
       value_fn = (\<lambda>node. Inr (safe_get node [''Ventilation'', ''FlowLvlTgt''])),
       sensor_key = ''FlowLvlTgt'',
       node_type = ''VLVRH''\<rparr>,
      \<lparr>key = ''IaqRh'',
       name = ''Humidity Air Quality'',
       native_unit_of_measurement = Some PERCENTAGE,
       state_class = None,
       device_class = None,
       value_fn = (\<lambda>node. Inr (process_node_iaq (safe_get node [''Sensor'', ''data'', ''IaqRh'']))),
       sensor_key = ''IaqRh'',
       node_type = ''VLVRH''\<rparr>,
      \<lparr>key = ''Rh'',
       name = ''Relative Humidity'',
       native_unit_of_measurement = Some PERCENTAGE,
       state_class = None,
       device_class = Some HUMIDITY,
       value_fn = (\<lambda>node. Inr (process_node_iaq (safe_get node [''Sensor'', ''data'', ''Rh'']))),
       sensor_key = ''Rh'',
       node_type = ''VLVRH''\<rparr>,
      \<lparr>key = ''Temp'',
       name = ''Temperature'',
       native_unit_of_measurement = Some UnitOfTemperature_CELSIUS,
       state_class = None,
       device_class = Some TEMPERATURE,
       value_fn = (\<lambda>node. Inr (process_node_temperature (safe_get node [''Sensor'', ''data'', ''Temp'']))),
       sensor_key = ''Temp'',
       node_type = ''VLVRH''\<rparr>
     ]"

definition VLVCO2_sensors :: "DucoboxNodeSensorEntityDescription list" where
  "VLVCO2_sensors =
     [
      \<lparr>key = ''State'',
       name = ''Ventilation State'',
       native_unit_of_measurement = None,
       state_class = None,
       device_class = None,
       value_fn = (\<lambda>node. Inr (safe_get node [''Ventilation'', ''State''])),
       sensor_key = ''State'',
       node_type = ''VLVCO2''\<rparr>,
      \<lparr>key = ''TimeStateRemain'',
       name = ''Time State Remaining'',
       native_unit_of_measurement = Some UnitOfTime_SECONDS,
       state_class = None,
       device_class = None,
       value_fn = (\<lambda>node. Inr (safe_get node [''Ventilation'', ''TimeStateRemain''])),
       sensor_key = ''TimeStateRemain'',
       node_type = ''VLVCO2''\<rparr>,
      \<lparr>key = ''TimeStateEnd'',
       name = ''Time State End'',
       native_unit_of_measurement = Some UnitOfTime_SECONDS,
       state_class = None,
       device_class = None,
       value_fn = (\<lambda>node. Inr (safe_get node [''Ventilation'', ''TimeStateEnd''])),
       sensor_key = ''TimeStateEnd'',
       node_type = ''VLVCO2''\<rparr>,
      \<lparr>key = ''Mode'',
       name = ''Ventilation Mode'',
       native_unit_of_measurement = None,
       state_class = None,
       device_class = None,
       value_fn = (\<lambda>node. Inr (safe_get node [''Ventilation'', ''Mode''])),
       sensor_key = ''Mode'',
       node_type = ''VLVCO2''\<rparr>,
      \<lparr>key = ''FlowLvlTgt'',
       name = ''Flow Level Target'',
       native_unit_of_measurement = Some PERCENTAGE,
       state_class = None,
       device_class = None,
       value_fn = (\<lambda>node. Inr (safe_get node [''Ventilation'', ''FlowLvlTgt''])),
       sensor_key = ''FlowLvlTgt'',
       node_type = ''VLVCO2''\<rparr>,
      \<lparr>key = ''Co2'',
       name = (''CO'' @ [CHR 0xE2, CHR 0x82, CHR 0x82]),
       native_unit_of_measurement = Some CONCENTRATION_PARTS_PER_MILLION,
       state_class = None,
       device_class = Some CO2,
       value_fn = (\<lambda>node. Inr (process_node_co2 (safe_get node [''Sensor'', ''data'', ''Co2'']))),
       sensor_key = ''Co2'',
       node_type = ''VLVCO2''\<rparr>,
      \<lparr>key = ''IaqCo2'',
       name = (''CO'' @ [CHR 0xE2, CHR 0x82, CHR 0x82] @ '' Air Quality''),
       native_unit_of_measurement = Some PERCENTAGE,
       state_class = None,
       device_class = None,
       value_fn = (\<lambda>node. Inr (process_node_iaq (safe_get node [''Sensor'', ''data'', ''IaqCo2'']))),
       sensor_key = ''IaqCo2'',
       node_type = ''VLVCO2''\<rparr>,
      \<lparr>key = ''Temp'',
       name = ''Temperature'',
       native_unit_of_measurement = Some UnitOfTemperature_CELSIUS,
       state_class = None,
       device_class = Some TEMPERATURE,
       value_fn = (\<lambda>node. Inr (process_node_temperature (safe_get node [''Sensor'', ''data'', ''Temp'']))),
       sensor_key = ''Temp'',
       node_type = ''VLVCO2''\<rparr>
     ]"

definition VLVCO2RH_sensors :: "DucoboxNodeSensorEntityDescription list" where
  "VLVCO2RH_sensors =
     [
      \<lparr>key = ''State'',
       name = ''Ventilation State'',
       native_unit_of_measurement = None,
       state_class = None,
       device_class = None,
       value_fn = (\<lambda>node. Inr (safe_get node [''Ventilation'', ''State''])),
       sensor_key = ''State'',
       node_type = ''VLVCO2RH''\<rparr>,
      \<lparr>key = ''TimeStateRemain'',
       name = ''Time State Remaining'',
       native_unit_of_measurement = Some UnitOfTime_SECONDS,
       state_class = None,
       device_class = None,
       value_fn = (\<lambda>node. Inr (safe_get node [''Ventilation'', ''TimeStateRemain''])),
       sensor_key = ''TimeStateRemain'',
       node_type = ''VLVCO2RH''\<rparr>,
      \<lparr>key = ''TimeStateEnd'',
       name = ''Time State End'',
       native_unit_of_measurement = Some UnitOfTime_SECONDS,
       state_class = None,
       device_class = None,
       value_fn = (\<lambda>node. Inr (safe_get node [''Ventilation'', ''TimeStateEnd''])),
       sensor_key = ''TimeStateEnd'',
       node_type = ''VLVCO2RH''\<rparr>,
      \<lparr>key = ''Mode'',
       name = ''Ventilation Mode'',
       native_unit_of_measurement = None,
       state_class = None,
       device_class = None,
       value_fn = (\<lambda>node. Inr (safe_get node [''Ventilation'', ''Mode''])),
       sensor_key = ''Mode'',
       node_type = ''VLVCO2RH''\<rparr>,
      \<lparr>key = ''FlowLvlTgt'',
       name = ''Flow Level Target'',
       native_unit_of_measurement = Some PERCENTAGE,
       state_class = None,
       device_class = None,
       value_fn = (\<lambda>node. Inr (safe_get node [''Ventilation'', ''FlowLvlTgt''])),
       sensor_key = ''FlowLvlTgt'',
       node_type = ''VLVCO2RH''\<rparr>,
      \<lparr>key = ''Co2'',
       name = (''CO'' @ [CHR 0xE2, CHR 0x82, CHR 0x82]),
       native_unit_of_measurement = Some CONCENTRATION_PARTS_PER_MILLION,
       state_class = None,
       device_class = Some CO2,
       value_fn = (\<lambda>node. Inr (process_node_co2 (safe_get node [''Sensor'', ''data'', ''Co2'']))),
       sensor_key = ''Co2'',
       node_type = ''VLVCO2RH''\<rparr>,
      \<lparr>key = ''IaqCo2'',
       name = (''CO'' @ [CHR 0xE2, CHR 0x82, CHR 0x82] @ '' Air Quality''),
       native_unit_of_measurement = Some PERCENTAGE,
       state_class = None,
       device_class = None,
       value_fn = (\<lambda>node. Inr (process_node_iaq (safe_get node [''Sensor'', ''data'', ''IaqCo2'']))),
       sensor_key = ''IaqCo2'',
       node_type = ''VLVCO2RH''\<rparr>,
      \<lparr>key = ''Rh'',
       name = ''Relative Humidity'',
       native_unit_of_measurement = Some PERCENTAGE,
       state_class = None,
       device_class = Some HUMIDITY,
       value_fn = (\<lambda>node. Inr (process_node_iaq (safe_get node [''Sensor'', ''data'', ''Rh'']))),
       sensor_key = ''Rh'',
       node_type = ''VLVCO2RH''\<rparr>,
      \<lparr>key = ''IaqRh'',
       name = ''Humidity Air Quality'',
       native_unit_of_measurement = Some PERCENTAGE,
       state_class = None,
       device_class = None,
       value_fn = (\<lambda>node. Inr (process_node_iaq (safe_get node [''Sensor'', ''data'', ''IaqRh'']))),
       sensor_key = ''IaqRh'',
       node_type = ''VLVCO2RH''\<rparr>,
      \<lparr>key = ''Temp'',
       name = ''Temperature'',
       native_unit_of_measurement = Some UnitOfTemperature_CELSIUS,
       state_class = None,
       device_class = Some TEMPERATURE,
       value_fn = (\<lambda>node. Inr (process_node_temperature (safe_get node [''Sensor'', ''data'', ''Temp'']))),
       sensor_key = ''Temp'',
       node_type = ''VLVCO2RH''\<rparr>
     ]"

definition UCBAT_sensors :: "DucoboxNodeSensorEntityDescription list" where
  "UCBAT_sensors =
     [
      \<lparr>key = ''State'',
       name = ''Ventilation State'',
       native_unit_of_measurement = None,
       state_class = None,
       device_class = None,
       value_fn = (\<lambda>node. Inr (safe_get node [''Ventilation'', ''State''])),
       sensor_key = ''State'',
       node_type = ''UCBAT''\<rparr>,
      \<lparr>key = ''TimeStateRemain'',
       name = ''Time State Remaining'',
       native_unit_of_measurement = Some UnitOfTime_SECONDS,
       state_class = None,
       device_class = None,
       value_fn = (\<lambda>node. Inr (safe_get node [''Ventilation'', ''TimeStateRemain''])),
       sensor_key = ''TimeStateRemain'',
       node_type = ''UCBAT''\<rparr>,
      \<lparr>key = ''TimeStateEnd'',
       name = ''Time State End'',
       native_unit_of_measurement = Some UnitOfTime_SECONDS,
       state_class = None,
       device_class = None,
       value_fn = (\<lambda>node. Inr (safe_get node [''Ventilation'', ''TimeStateEnd''])),
       sensor_key = ''TimeStateEnd'',
       node_type = ''UCBAT''\<rparr>,
      \<lparr>key = ''Mode'',
       name = ''Ventilation Mode'',
       native_unit_of_measurement = None,
       state_class = None,
       device_class = None,
       value_fn = (\<lambda>node. Inr (safe_get node [''Ventilation'', ''Mode''])),
       sensor_key = ''Mode'',
       node_type = ''UCBAT''\<rparr>
     ]"

definition NODE_SENSORS :: "(string \<times> DucoboxNodeSensorEntityDescription list) list" where
  "NODE_SENSORS =
     [(''BOX'', BOX_sensors),
      (''UCCO2'', UCCO2_sensors),
      (''BSRH'', BSRH_sensors),
      (''VLVRH'', VLVRH_sensors),
      (''VLVCO2'', VLVCO2_sensors),
      (''VLVCO2RH'', VLVCO2RH_sensors),
      (''UCBAT'', UCBAT_sensors)]"

text \<open>
  The part of \<open>async_setup_entry\<close> that selects the sensors of one node:
  \<^verbatim>\<open>
  node_id = node.get('Node')
  node_type = safe_get(node, 'General', 'Type', 'Val') or 'Unknown'
  node_addr = safe_get(node, 'General', 'Addr') or 'Unknown'
  ...
  node_sensors = NODE_SENSORS.get(node_type, [])
  \<close>
  \<open>dict.get\<close> raises TypeError for an unhashable key (a list or a dict) and \<open>node.get\<close>
  raises AttributeError when the node is not a dict.
\<close>

definition hashable :: "pyval \<Rightarrow> bool" where
  "hashable v = (case v of PList xs \<Rightarrow> False | PDict d \<Rightarrow> False | _ \<Rightarrow> True)"

definition NODE_SENSORS_get :: "pyval \<Rightarrow> pyerror + DucoboxNodeSensorEntityDescription list" where
  "NODE_SENSORS_get type_code =
     (if \<not> hashable type_code then Inl TypeError
      else case type_code of
             PStr s \<Rightarrow> Inr (case map_of NODE_SENSORS s of None \<Rightarrow> [] | Some l \<Rightarrow> l)
           | _ \<Rightarrow> Inr [])"

fun truthy :: "pyval \<Rightarrow> bool" where
  "truthy PNone = False"
| "truthy (PBool b) = b"
| "truthy (PInt i) = (i \<noteq> 0)"
| "truthy (PFloat f) = (f \<noteq> Fin 0)"
| "truthy (PStr s) = (s \<noteq> [])"
| "truthy (PList xs) = (xs \<noteq> [])"
| "truthy (PDict d) = (d \<noteq> [])"

definition py_or :: "pyval \<Rightarrow> pyval \<Rightarrow> pyval" where
  "py_or a b = (if truthy a then a else b)"

definition node_sensors_of :: "pyval \<Rightarrow> pyerror + DucoboxNodeSensorEntityDescription list" where
  "node_sensors_of node =
     (case node of
        PDict d \<Rightarrow>
          (let ident = dict_get d ''Node'';
               type_code = py_or (safe_get node [''General'', ''Type'', ''Val'']) (PStr ''Unknown'');
               addr = py_or (safe_get node [''General'', ''Addr'']) (PStr ''Unknown'')
           in NODE_SENSORS_get type_code)
      | _ \<Rightarrow> Inl AttributeError)"

section \<open>The node types of the sensor table\<close>

lemma NODE_SENSORS_keys:
  "map fst NODE_SENSORS =
     [''BOX'', ''UCCO2'', ''BSRH'', ''VLVRH'', ''VLVCO2'', ''VLVCO2RH'', ''UCBAT'']"
  by (simp add: NODE_SENSORS_def)

lemma NODE_SENSORS_miss:
  assumes "s \<notin> {''BOX'', ''UCCO2'', ''BSRH'', ''VLVRH'', ''VLVCO2'', ''VLVCO2RH'', ''UCBAT''}"
  shows "map_of NODE_SENSORS s = None"
proof -
  have "s \<notin> set (map fst NODE_SENSORS)" using assms unfolding NODE_SENSORS_keys by simp
  then show ?thesis by (simp add: map_of_eq_None_iff)
qed

lemma UCCO2_consistent: "\<forall>d \<in> set UCCO2_sensors. node_type d = ''UCCO2'' \<and> sensor_key d = key d"
  by (simp add: UCCO2_sensors_def)

lemma BOX_consistent: "\<forall>d \<in> set BOX_sensors. node_type d = ''BOX'' \<and> sensor_key d = key d"
  by (simp add: BOX_sensors_def)

lemma BSRH_consistent: "\<forall>d \<in> set BSRH_sensors. node_type d = ''BSRH'' \<and> sensor_key d = key d"
  by (simp add: BSRH_sensors_def)

lemma VLVRH_consistent: "\<forall>d \<in> set VLVRH_sensors. node_type d = ''VLVRH'' \<and> sensor_key d = key d"
  by (simp add: VLVRH_sensors_def)

lemma VLVCO2_consistent: "\<forall>d \<in> set VLVCO2_sensors. node_type d = ''VLVCO2'' \<and> sensor_key d = key d"
  by (simp add: VLVCO2_sensors_def)

lemma VLVCO2RH_consistent: "\<forall>d \<in> set VLVCO2RH_sensors. node_type d = ''VLVCO2RH'' \<and> sensor_key d = key d"
  by (simp add: VLVCO2RH_sensors_def)

lemma UCBAT_consistent: "\<forall>d \<in> set UCBAT_sensors. node_type d = ''UCBAT'' \<and> sensor_key d = key d"
  by (simp add: UCBAT_sensors_def)

lemma sensors_nonempty:
  "BOX_sensors \<noteq> []" "UCCO2_sensors \<noteq> []" "BSRH_sensors \<noteq> []" "VLVRH_sensors \<noteq> []"
  "VLVCO2_sensors \<noteq> []" "VLVCO2RH_sensors \<noteq> []" "UCBAT_sensors \<noteq> []"
  by (simp_all add: BOX_sensors_def UCCO2_sensors_def BSRH_sensors_def
      VLVRH_sensors_def VLVCO2_sensors_def VLVCO2RH_sensors_def UCBAT_sensors_def)

lemma node_types_consistent:
  "\<forall>(k, l) \<in> set NODE_SENSORS. l \<noteq> [] \<and> (\<forall>d \<in> set l. node_type d = k \<and> sensor_key d = key d)"
  unfolding NODE_SENSORS_def
  using BOX_consistent UCCO2_consistent BSRH_consistent VLVRH_consistent VLVCO2_consistent
    VLVCO2RH_consistent UCBAT_consistent sensors_nonempty
  by simp

text \<open>
  C7. The key set of \<open>NODE_SENSORS\<close> is exactly the seven type codes BOX, UCCO2, BSRH,
  VLVRH, VLVCO2, VLVCO2RH and UCBAT, each once and each bound to a non-empty list of
  descriptions of that node type; the lookup of any other string, and of any other
  hashable value, falls back to the empty list, so a node whose type code is outside the
  seven gets no node sensors.
\<close>

theorem NODE_SENSORS_seven_types:
  "set (map fst NODE_SENSORS) =
     {''BOX'', ''UCCO2'', ''BSRH'', ''VLVRH'', ''VLVCO2'', ''VLVCO2RH'', ''UCBAT''}
   \<and> distinct (map fst NODE_SENSORS)
   \<and> (\<forall>(k, l) \<in> set NODE_SENSORS.
         l \<noteq> [] \<and> NODE_SENSORS_get (PStr k) = Inr l \<and> (\<forall>d \<in> set l. node_type d = k))
   \<and> (\<forall>s. s \<notin> {''BOX'', ''UCCO2'', ''BSRH'', ''VLVRH'', ''VLVCO2'', ''VLVCO2RH'', ''UCBAT''}
         \<longrightarrow> NODE_SENSORS_get (PStr s) = Inr [])
   \<and> (\<forall>t. hashable t \<and> (\<forall>s. t \<noteq> PStr s) \<longrightarrow> NODE_SENSORS_get t = Inr [])
   \<and> (\<forall>d s. py_or (safe_get (PDict d) [''General'', ''Type'', ''Val'']) (PStr ''Unknown'') = PStr s
         \<and> s \<notin> {''BOX'', ''UCCO2'', ''BSRH'', ''VLVRH'', ''VLVCO2'', ''VLVCO2RH'', ''UCBAT''}
         \<longrightarrow> node_sensors_of (PDict d) = Inr [])"
proof -
  have keys: "set (map fst NODE_SENSORS) =
     {''BOX'', ''UCCO2'', ''BSRH'', ''VLVRH'', ''VLVCO2'', ''VLVCO2RH'', ''UCBAT''}"
    unfolding NODE_SENSORS_keys by simp
  have dist: "distinct (map fst NODE_SENSORS)"
    unfolding NODE_SENSORS_keys by simp
  have hit: "\<forall>(k, l) \<in> set NODE_SENSORS.
         l \<noteq> [] \<and> NODE_SENSORS_get (PStr k) = Inr l \<and> (\<forall>d \<in> set l. node_type d = k)"
  proof (intro ballI, clarify)
    fix k l assume kl: "(k, l) \<in> set NODE_SENSORS"
    have "map_of NODE_SENSORS k = Some l" using dist kl by (rule map_of_is_SomeI)
    then have g: "NODE_SENSORS_get (PStr k) = Inr l"
      by (simp add: NODE_SENSORS_get_def hashable_def)
    from node_types_consistent kl
    have "l \<noteq> [] \<and> (\<forall>d \<in> set l. node_type d = k \<and> sensor_key d = key d)"
      by fast
    with g show "l \<noteq> [] \<and> NODE_SENSORS_get (PStr k) = Inr l \<and> (\<forall>d \<in> set l. node_type d = k)"
      by simp
  qed
  have miss: "\<forall>s. s \<notin> {''BOX'', ''UCCO2'', ''BSRH'', ''VLVRH'', ''VLVCO2'', ''VLVCO2RH'', ''UCBAT''}
         \<longrightarrow> NODE_SENSORS_get (PStr s) = Inr []"
  proof (intro allI impI)
    fix s assume "s \<notin> {''BOX'', ''UCCO2'', ''BSRH'', ''VLVRH'', ''VLVCO2'', ''VLVCO2RH'', ''UCBAT''}"
    then have "map_of NODE_SENSORS s = None" by (rule NODE_SENSORS_miss)
    then show "NODE_SENSORS_get (PStr s) = Inr []"
      by (simp add: NODE_SENSORS_get_def hashable_def)
  qed
  have other: "\<forall>t. hashable t \<and> (\<forall>s. t \<noteq> PStr s) \<longrightarrow> NODE_SENSORS_get t = Inr []"
  proof (intro allI impI)
    fix t assume "hashable t \<and> (\<forall>s. t \<noteq> PStr s)"
    then show "NODE_SENSORS_get t = Inr []"
      by (cases t) (simp_all add: NODE_SENSORS_get_def)
  qed
  have node: "\<forall>d s. py_or (safe_get (PDict d) [''General'', ''Type'', ''Val'']) (PStr ''Unknown'') = PStr s
         \<and> s \<notin> {''BOX'', ''UCCO2'', ''BSRH'', ''VLVRH'', ''VLVCO2'', ''VLVCO2RH'', ''UCBAT''}
         \<longrightarrow> node_sensors_of (PDict d) = Inr []"
  proof (intro allI impI, elim conjE)
    fix d s
    assume t: "py_or (safe_get (PDict d) [''General'', ''Type'', ''Val'']) (PStr ''Unknown'') = PStr s"
      and s: "s \<notin> {''BOX'', ''UCCO2'', ''BSRH'', ''VLVRH'', ''VLVCO2'', ''VLVCO2RH'', ''UCBAT''}"
    have "node_sensors_of (PDict d) = NODE_SENSORS_get (PStr s)"
      unfolding node_sensors_of_def Let_def t by simp
    with miss s show "node_sensors_of (PDict d) = Inr []" by simp
  qed
  show ?thesis by (intro conjI; fact)
qed

theorem NODE_SENSORS_seven_types_witness:
  "(''UCCO2'', UCCO2_sensors) \<in> set NODE_SENSORS
   \<and> UCCO2_sensors \<noteq> [] \<and> NODE_SENSORS_get (PStr ''UCCO2'') = Inr UCCO2_sensors
   \<and> ''SWITCH'' \<notin> {''BOX'', ''UCCO2'', ''BSRH'', ''VLVRH'', ''VLVCO2'', ''VLVCO2RH'', ''UCBAT''}
   \<and> NODE_SENSORS_get (PStr ''SWITCH'') = Inr []
   \<and> hashable (PInt 5) \<and> (\<forall>s. PInt 5 \<noteq> PStr s) \<and> NODE_SENSORS_get (PInt 5) = Inr []
   \<and> py_or (safe_get (PDict [(''Node'', PInt 2)]) [''General'', ''Type'', ''Val''])
        (PStr ''Unknown'') = PStr ''Unknown''
   \<and> ''Unknown'' \<notin> {''BOX'', ''UCCO2'', ''BSRH'', ''VLVRH'', ''VLVCO2'', ''VLVCO2RH'', ''UCBAT''}
   \<and> node_sensors_of (PDict [(''Node'', PInt 2)]) = Inr []"
proof -
  note T = NODE_SENSORS_seven_types
  have h1: "(''UCCO2'', UCCO2_sensors) \<in> set NODE_SENSORS"
    by (simp add: NODE_SENSORS_def)
  have h2: "''SWITCH'' \<notin> {''BOX'', ''UCCO2'', ''BSRH'', ''VLVRH'', ''VLVCO2'', ''VLVCO2RH'', ''UCBAT''}"
    by simp
  have h3: "hashable (PInt 5) \<and> (\<forall>s. PInt 5 \<noteq> PStr s)"
    by (simp add: hashable_def)
  have h5: "py_or (safe_get (PDict [(''Node'', PInt 2)]) [''General'', ''Type'', ''Val''])
        (PStr ''Unknown'') = PStr ''Unknown''"
    by (simp add: py_or_def dict_get_def)
  have h6: "''Unknown'' \<notin> {''BOX'', ''UCCO2'', ''BSRH'', ''VLVRH'', ''VLVCO2'', ''VLVCO2RH'', ''UCBAT''}"
    by simp
  have a: "\<forall>(k, l) \<in> set NODE_SENSORS.
         l \<noteq> [] \<and> NODE_SENSORS_get (PStr k) = Inr l \<and> (\<forall>d \<in> set l. node_type d = k)"
    by (rule T [THEN conjunct2, THEN conjunct2, THEN conjunct1])
  have 1: "UCCO2_sensors \<noteq> [] \<and> NODE_SENSORS_get (PStr ''UCCO2'') = Inr UCCO2_sensors"
    using a h1 by fast
  have 2: "NODE_SENSORS_get (PStr ''SWITCH'') = Inr []"
    by (rule T [THEN conjunct2, THEN conjunct2, THEN conjunct2, THEN conjunct1, rule_format, OF h2])
  have 3: "NODE_SENSORS_get (PInt 5) = Inr []"
    by (rule T [THEN conjunct2, THEN conjunct2, THEN conjunct2, THEN conjunct2, THEN conjunct1,
          rule_format, OF h3])
  have 4: "node_sensors_of (PDict [(''Node'', PInt 2)]) = Inr []"
    by (rule T [THEN conjunct2, THEN conjunct2, THEN conjunct2, THEN conjunct2, THEN conjunct2,
          rule_format, OF conjI [OF h5 h6]])
  show ?thesis using h1 h2 h3 h5 h6 1 2 3 4 by (simp only: simp_thms)
qed

section \<open>The relative humidity sensors of the valve nodes\<close>

lemma iaq_is_humidity: "process_node_iaq v = process_node_humidity v"
  by (simp add: process_node_iaq_def process_node_humidity_def)

lemma Rh_of_VLVRH:
  assumes "d \<in> set VLVRH_sensors" "key d = ''Rh''"
  shows "name d = ''Relative Humidity''
       \<and> value_fn d = (\<lambda>node. Inr (process_node_iaq (safe_get node [''Sensor'', ''data'', ''Rh''])))"
  using assms by (auto simp: VLVRH_sensors_def)

lemma Rh_of_VLVCO2RH:
  assumes "d \<in> set VLVCO2RH_sensors" "key d = ''Rh''"
  shows "name d = ''Relative Humidity''
       \<and> value_fn d = (\<lambda>node. Inr (process_node_iaq (safe_get node [''Sensor'', ''data'', ''Rh''])))"
  using assms by (auto simp: VLVCO2RH_sensors_def)

text \<open>
  C10. \<open>_process_node_iaq\<close> and \<open>_process_node_humidity\<close> are the same function, the
  identity (\<open>None\<close> to \<open>None\<close>); the description with key Rh of the node types VLVRH and
  VLVCO2RH, named Relative Humidity, is wired to \<open>_process_node_iaq\<close>, and its accessor
  equals the one wired to \<open>_process_node_humidity\<close>.
\<close>

theorem node_iaq_equals_node_humidity:
  "(\<forall>v. process_node_iaq v = process_node_humidity v)
   \<and> (\<forall>v. process_node_iaq v = v \<and> process_node_humidity v = v)
   \<and> (\<forall>t l d. t \<in> {''VLVRH'', ''VLVCO2RH''} \<and> map_of NODE_SENSORS t = Some l
          \<and> d \<in> set l \<and> key d = ''Rh'' \<longrightarrow>
          name d = ''Relative Humidity''
        \<and> value_fn d = (\<lambda>node. Inr (process_node_iaq (safe_get node [''Sensor'', ''data'', ''Rh''])))
        \<and> value_fn d =
            (\<lambda>node. Inr (process_node_humidity (safe_get node [''Sensor'', ''data'', ''Rh'']))))
   \<and> (\<exists>d \<in> set VLVRH_sensors. key d = ''Rh'')
   \<and> (\<exists>d \<in> set VLVCO2RH_sensors. key d = ''Rh'')
   \<and> map_of NODE_SENSORS ''VLVRH'' = Some VLVRH_sensors
   \<and> map_of NODE_SENSORS ''VLVCO2RH'' = Some VLVCO2RH_sensors"
proof -
  have eq: "\<forall>v. process_node_iaq v = process_node_humidity v"
    by (simp add: iaq_is_humidity)
  have ident: "\<forall>v. process_node_iaq v = v \<and> process_node_humidity v = v"
    by (simp add: process_node_iaq_def process_node_humidity_def)
  have m1: "map_of NODE_SENSORS ''VLVRH'' = Some VLVRH_sensors"
    by (simp add: NODE_SENSORS_def)
  have m2: "map_of NODE_SENSORS ''VLVCO2RH'' = Some VLVCO2RH_sensors"
    by (simp add: NODE_SENSORS_def)
  have wired: "\<forall>t l d. t \<in> {''VLVRH'', ''VLVCO2RH''} \<and> map_of NODE_SENSORS t = Some l
          \<and> d \<in> set l \<and> key d = ''Rh'' \<longrightarrow>
          name d = ''Relative Humidity''
        \<and> value_fn d = (\<lambda>node. Inr (process_node_iaq (safe_get node [''Sensor'', ''data'', ''Rh''])))
        \<and> value_fn d =
            (\<lambda>node. Inr (process_node_humidity (safe_get node [''Sensor'', ''data'', ''Rh''])))"
  proof (intro allI impI, elim conjE)
    fix t l d
    assume t: "t \<in> {''VLVRH'', ''VLVCO2RH''}" and l: "map_of NODE_SENSORS t = Some l"
      and d: "d \<in> set l" and k: "key d = ''Rh''"
    from t have "t = ''VLVRH'' \<or> t = ''VLVCO2RH''" by simp
    then have "name d = ''Relative Humidity''
       \<and> value_fn d = (\<lambda>node. Inr (process_node_iaq (safe_get node [''Sensor'', ''data'', ''Rh''])))"
    proof
      assume "t = ''VLVRH''"
      with l m1 have "l = VLVRH_sensors" by simp
      with d k show ?thesis by (simp add: Rh_of_VLVRH)
    next
      assume "t = ''VLVCO2RH''"
      with l m2 have "l = VLVCO2RH_sensors" by simp
      with d k show ?thesis by (simp add: Rh_of_VLVCO2RH)
    qed
    then show "name d = ''Relative Humidity''
        \<and> value_fn d = (\<lambda>node. Inr (process_node_iaq (safe_get node [''Sensor'', ''data'', ''Rh''])))
        \<and> value_fn d =
            (\<lambda>node. Inr (process_node_humidity (safe_get node [''Sensor'', ''data'', ''Rh''])))"
      by (simp add: iaq_is_humidity)
  qed
  have e1: "\<exists>d \<in> set VLVRH_sensors. key d = ''Rh''"
    by (simp add: VLVRH_sensors_def)
  have e2: "\<exists>d \<in> set VLVCO2RH_sensors. key d = ''Rh''"
    by (simp add: VLVCO2RH_sensors_def)
  show ?thesis by (intro conjI; fact)
qed

theorem node_iaq_equals_node_humidity_witness:
  "''VLVRH'' \<in> {''VLVRH'', ''VLVCO2RH''}
   \<and> map_of NODE_SENSORS ''VLVRH'' = Some VLVRH_sensors
   \<and> VLVRH_sensors ! 6 \<in> set VLVRH_sensors
   \<and> key (VLVRH_sensors ! 6) = ''Rh''
   \<and> name (VLVRH_sensors ! 6) = ''Relative Humidity''
   \<and> value_fn (VLVRH_sensors ! 6)
         (PDict [(''Sensor'', PDict [(''data'', PDict [(''Rh'', PInt 55)])])])
       = Inr (process_node_humidity (PInt 55))
   \<and> process_node_humidity (PInt 55) = PInt 55"
proof -
  note T = node_iaq_equals_node_humidity
  have h1: "''VLVRH'' \<in> {''VLVRH'', ''VLVCO2RH''}" by simp
  have h2: "map_of NODE_SENSORS ''VLVRH'' = Some VLVRH_sensors"
    by (simp add: NODE_SENSORS_def)
  have h3: "VLVRH_sensors ! 6 \<in> set VLVRH_sensors"
    by (rule nth_mem) (simp add: VLVRH_sensors_def)
  have h4: "key (VLVRH_sensors ! 6) = ''Rh''"
    by (simp add: VLVRH_sensors_def)
  have w: "name (VLVRH_sensors ! 6) = ''Relative Humidity''
        \<and> value_fn (VLVRH_sensors ! 6) =
            (\<lambda>node. Inr (process_node_iaq (safe_get node [''Sensor'', ''data'', ''Rh''])))
        \<and> value_fn (VLVRH_sensors ! 6) =
            (\<lambda>node. Inr (process_node_humidity (safe_get node [''Sensor'', ''data'', ''Rh''])))"
    by (rule T [THEN conjunct2, THEN conjunct2, THEN conjunct1, rule_format,
          OF conjI [OF h1 conjI [OF h2 conjI [OF h3 h4]]]])
  have v: "value_fn (VLVRH_sensors ! 6)
         (PDict [(''Sensor'', PDict [(''data'', PDict [(''Rh'', PInt 55)])])])
       = Inr (process_node_humidity (PInt 55))"
    by (simp add: w [THEN conjunct2, THEN conjunct2] dict_get_def)
  have i: "process_node_humidity (PInt 55) = PInt 55"
    by (simp add: T [THEN conjunct2, THEN conjunct1, rule_format])
  show ?thesis using h1 h2 h3 h4 w v i by (simp only: simp_thms)
qed

section \<open>The coordinator\<close>

text \<open>
  \<^verbatim>\<open>
  async def _async_update_data(self) -> dict:
      try:
          return await self.hass.async_add_executor_job(self._fetch_data)
      except Exception as e:
          _LOGGER.error("Failed to fetch data from Ducobox API: %s", e)
          raise UpdateFailed(f"Failed to fetch data from Ducobox API: {e}") from e

  def _fetch_data(self) -> dict:
      duco_client = self.duco_client
      if duco_client is None:
          raise Exception("Duco client is not initialized")
      try:
          data = duco_client.get_info()
          if data is None:
              data = {}
          nodes_response = duco_client.get_nodes()
          if nodes_response and hasattr(nodes_response, 'Nodes'):
              data['Nodes'] = [node.dict() for node in nodes_response.Nodes]
          else:
              data['Nodes'] = []
          return data
      except Exception as e:
          _LOGGER.error("Error fetching data from Ducobox API: %s", e)
          raise
  \<close>
  The client is the external library: it is modelled by what its two calls return or
  raise, as a function of how many calls of that kind were made before, and the state
  \<open>requests\<close> counts the calls, so that a second attempt would show. The response of
  \<open>get_nodes\<close> is \<open>None\<close> or an object, truthy or not, with or without an attribute
  \<open>Nodes\<close> holding node objects whose \<open>dict()\<close> is a dict. \<open>data['Nodes'] = ...\<close> on a value
  that is not a dict raises TypeError; on a dict it overwrites in place or appends. The
  host's \<open>async_add_executor_job\<close> calls its argument once and passes its result or
  exception on. \<open>UpdateFailed\<close> keeps the exception it wraps. Logging is left out.
\<close>

datatype NodeInfo = NodeInfo "(string \<times> pyval) list"

fun node_dict :: "NodeInfo \<Rightarrow> pyval" where
  "node_dict (NodeInfo items) = PDict items"

datatype nodes_response = NoResponse | NodesResponse bool "NodeInfo list option"

fun response_truthy :: "nodes_response \<Rightarrow> bool" where
  "response_truthy NoResponse = False"
| "response_truthy (NodesResponse t a) = t"

fun hasattr_Nodes :: "nodes_response \<Rightarrow> bool" where
  "hasattr_Nodes NoResponse = False"
| "hasattr_Nodes (NodesResponse t a) = (a \<noteq> None)"

fun attr_Nodes :: "nodes_response \<Rightarrow> NodeInfo list" where
  "attr_Nodes (NodesResponse t (Some ns)) = ns"
| "attr_Nodes r = []"

record DucoPy =
  get_info_reply :: "nat \<Rightarrow> pyerror + pyval"
  get_nodes_reply :: "nat \<Rightarrow> pyerror + nodes_response"

record requests =
  info_calls :: nat
  nodes_calls :: nat

definition get_info :: "DucoPy \<Rightarrow> requests \<Rightarrow> (pyerror + pyval) \<times> requests" where
  "get_info c s = (get_info_reply c (info_calls s), s\<lparr>info_calls := Suc (info_calls s)\<rparr>)"

definition get_nodes :: "DucoPy \<Rightarrow> requests \<Rightarrow> (pyerror + nodes_response) \<times> requests" where
  "get_nodes c s = (get_nodes_reply c (nodes_calls s), s\<lparr>nodes_calls := Suc (nodes_calls s)\<rparr>)"

definition dict_set :: "(string \<times> pyval) list \<Rightarrow> string \<Rightarrow> pyval \<Rightarrow> (string \<times> pyval) list" where
  "dict_set d k v =
     (if k \<in> fst ` set d then map (\<lambda>(k', v'). if k' = k then (k', v) else (k', v')) d
      else d @ [(k, v)])"

definition set_item :: "pyval \<Rightarrow> string \<Rightarrow> pyval \<Rightarrow> pyerror + pyval" where
  "set_item obj k v = (case obj of PDict d \<Rightarrow> Inr (PDict (dict_set d k v)) | _ \<Rightarrow> Inl TypeError)"

definition fetched_nodes :: "nodes_response \<Rightarrow> pyval list" where
  "fetched_nodes nodes_response =
     (if response_truthy nodes_response \<and> hasattr_Nodes nodes_response
      then map node_dict (attr_Nodes nodes_response)
      else [])"

definition fetch_data :: "DucoPy option \<Rightarrow> requests \<Rightarrow> (pyerror + pyval) \<times> requests" where
  "fetch_data duco_client s =
     (case duco_client of
        None \<Rightarrow> (Inl (Exception ''Duco client is not initialized''), s)
      | Some c \<Rightarrow>
          (case get_info c s of
             (Inl e, s1) \<Rightarrow> (Inl e, s1)
           | (Inr info, s1) \<Rightarrow>
               (let data = (if info = PNone then PDict [] else info)
                in case get_nodes c s1 of
                     (Inl e, s2) \<Rightarrow> (Inl e, s2)
                   | (Inr nodes_response, s2) \<Rightarrow>
                       (set_item data ''Nodes'' (PList (fetched_nodes nodes_response)), s2))))"

definition async_update_data :: "DucoPy option \<Rightarrow> requests \<Rightarrow> (pyerror + pyval) \<times> requests" where
  "async_update_data duco_client s =
     (case fetch_data duco_client s of
        (Inl e, s') \<Rightarrow> (Inl (UpdateFailed e), s')
      | (Inr data, s') \<Rightarrow> (Inr data, s'))"

lemma map_of_dict_set_same: "map_of (dict_set d k v) k = Some v"
proof (cases "k \<in> fst ` set d")
  case True
  have "k \<in> fst ` set xs \<Longrightarrow>
        map_of (map (\<lambda>(k', v'). if k' = k then (k', v) else (k', v')) xs) k = Some v" for xs
    by (induction xs) auto
  with True show ?thesis by (simp add: dict_set_def)
next
  case False
  then have "map_of d k = None" by (simp add: map_of_eq_None_iff)
  with False show ?thesis by (simp add: dict_set_def map_add_def)
qed

lemma map_of_dict_set_other:
  assumes "k' \<noteq> k"
  shows "map_of (dict_set d k v) k' = map_of d k'"
proof (cases "k \<in> fst ` set d")
  case True
  have "map_of (map (\<lambda>(a, b). if a = k then (a, v) else (a, b)) xs) k' = map_of xs k'" for xs
    using assms by (induction xs) auto
  with True show ?thesis by (simp add: dict_set_def)
next
  case False
  show ?thesis using False assms by (simp add: dict_set_def map_add_def split: option.splits)
qed

lemma dict_set_keys: "fst ` set (dict_set d k v) = insert k (fst ` set d)"
  by (auto simp: dict_set_def image_iff split: if_splits prod.splits) force+

lemma fetch_data_Some:
  "fetch_data (Some c) s =
     (case get_info_reply c (info_calls s) of
        Inl e \<Rightarrow> (Inl e, s\<lparr>info_calls := Suc (info_calls s)\<rparr>)
      | Inr info \<Rightarrow>
          (case get_nodes_reply c (nodes_calls s) of
             Inl e \<Rightarrow>
               (Inl e, s\<lparr>info_calls := Suc (info_calls s), nodes_calls := Suc (nodes_calls s)\<rparr>)
           | Inr ns \<Rightarrow>
               (set_item (if info = PNone then PDict [] else info) ''Nodes''
                  (PList (fetched_nodes ns)),
                s\<lparr>info_calls := Suc (info_calls s), nodes_calls := Suc (nodes_calls s)\<rparr>)))"
  by (simp add: fetch_data_def get_info_def get_nodes_def Let_def split: sum.splits)

lemma fetch_data_calls:
  "info_calls (snd (fetch_data cl s)) \<le> info_calls s + 1
   \<and> nodes_calls (snd (fetch_data cl s)) \<le> nodes_calls s + 1"
proof (cases cl)
  case None
  then show ?thesis by (simp add: fetch_data_def)
next
  case (Some c)
  show ?thesis unfolding Some fetch_data_Some by (simp split: sum.splits)
qed

lemma fetch_data_success:
  assumes "fetch_data (Some c) s = (Inr d, s')"
  shows "\<exists>base ns.
           (get_info_reply c (info_calls s) = Inr PNone \<and> base = []
            \<or> get_info_reply c (info_calls s) = Inr (PDict base))
         \<and> get_nodes_reply c (nodes_calls s) = Inr ns
         \<and> d = PDict (dict_set base ''Nodes'' (PList (fetched_nodes ns)))"
proof -
  from assms obtain info ns where i: "get_info_reply c (info_calls s) = Inr info"
    and n: "get_nodes_reply c (nodes_calls s) = Inr ns"
    and d: "set_item (if info = PNone then PDict [] else info) ''Nodes''
              (PList (fetched_nodes ns)) = Inr d"
    unfolding fetch_data_Some by (auto split: sum.splits)
  show ?thesis
  proof (cases "info = PNone")
    case True
    with d have "d = PDict (dict_set [] ''Nodes'' (PList (fetched_nodes ns)))"
      by (simp add: set_item_def)
    with i n True show ?thesis by blast
  next
    case False
    with d obtain base where b: "info = PDict base"
      by (cases info) (simp_all add: set_item_def)
    with d have "d = PDict (dict_set base ''Nodes'' (PList (fetched_nodes ns)))"
      by (simp add: set_item_def)
    with i n b show ?thesis by blast
  qed
qed

text \<open>
  C5. When \<open>_fetch_data\<close> returns, \<open>get_info\<close> returned \<open>None\<close> (then the base mapping is
  empty) or a dict (then it is the base mapping), \<open>get_nodes\<close> returned a response, and the
  result is the base mapping with the key Nodes bound to the list of the node dicts of the
  response, the empty list when the response is \<open>None\<close>, falsy or has no attribute
  \<open>Nodes\<close>; every other key keeps its binding. Conversely, when \<open>get_info\<close> returns \<open>None\<close>
  or a dict and \<open>get_nodes\<close> returns, \<open>_fetch_data\<close> returns such a mapping.
\<close>

theorem fetch_data_merges:
  "(fetch_data (Some c) s = (Inr d, s') \<longrightarrow>
      (\<exists>base ns.
          (get_info_reply c (info_calls s) = Inr PNone \<and> base = []
           \<or> get_info_reply c (info_calls s) = Inr (PDict base))
        \<and> get_nodes_reply c (nodes_calls s) = Inr ns
        \<and> d = PDict (dict_set base ''Nodes'' (PList (fetched_nodes ns)))
        \<and> dict_get (dict_set base ''Nodes'' (PList (fetched_nodes ns))) ''Nodes''
            = PList (fetched_nodes ns)
        \<and> (\<forall>k. k \<noteq> ''Nodes'' \<longrightarrow>
               map_of (dict_set base ''Nodes'' (PList (fetched_nodes ns))) k = map_of base k)))
   \<and> (\<forall>t l. fetched_nodes (NodesResponse t l) =
          (if t then case l of None \<Rightarrow> [] | Some ns \<Rightarrow> map node_dict ns else []))
   \<and> fetched_nodes NoResponse = []
   \<and> (\<forall>info ns. get_info_reply c (info_calls s) = Inr info \<and> (info = PNone \<or> is_dict info)
          \<and> get_nodes_reply c (nodes_calls s) = Inr ns \<longrightarrow>
          (\<exists>items. fst (fetch_data (Some c) s) = Inr (PDict items)
                 \<and> map_of items ''Nodes'' = Some (PList (fetched_nodes ns))))"
proof -
  have merged: "fetch_data (Some c) s = (Inr d, s') \<longrightarrow>
      (\<exists>base ns.
          (get_info_reply c (info_calls s) = Inr PNone \<and> base = []
           \<or> get_info_reply c (info_calls s) = Inr (PDict base))
        \<and> get_nodes_reply c (nodes_calls s) = Inr ns
        \<and> d = PDict (dict_set base ''Nodes'' (PList (fetched_nodes ns)))
        \<and> dict_get (dict_set base ''Nodes'' (PList (fetched_nodes ns))) ''Nodes''
            = PList (fetched_nodes ns)
        \<and> (\<forall>k. k \<noteq> ''Nodes'' \<longrightarrow>
               map_of (dict_set base ''Nodes'' (PList (fetched_nodes ns))) k = map_of base k))"
  proof
    assume "fetch_data (Some c) s = (Inr d, s')"
    from fetch_data_success [OF this] obtain base ns where
      b: "get_info_reply c (info_calls s) = Inr PNone \<and> base = []
           \<or> get_info_reply c (info_calls s) = Inr (PDict base)"
      and n: "get_nodes_reply c (nodes_calls s) = Inr ns"
      and d: "d = PDict (dict_set base ''Nodes'' (PList (fetched_nodes ns)))"
      by blast
    have g: "dict_get (dict_set base ''Nodes'' (PList (fetched_nodes ns))) ''Nodes''
            = PList (fetched_nodes ns)"
      by (simp add: dict_get_def map_of_dict_set_same)
    have o: "\<forall>k. k \<noteq> ''Nodes'' \<longrightarrow>
               map_of (dict_set base ''Nodes'' (PList (fetched_nodes ns))) k = map_of base k"
      by (simp add: map_of_dict_set_other)
    from b n d g o show "\<exists>base ns.
          (get_info_reply c (info_calls s) = Inr PNone \<and> base = []
           \<or> get_info_reply c (info_calls s) = Inr (PDict base))
        \<and> get_nodes_reply c (nodes_calls s) = Inr ns
        \<and> d = PDict (dict_set base ''Nodes'' (PList (fetched_nodes ns)))
        \<and> dict_get (dict_set base ''Nodes'' (PList (fetched_nodes ns))) ''Nodes''
            = PList (fetched_nodes ns)
        \<and> (\<forall>k. k \<noteq> ''Nodes'' \<longrightarrow>
               map_of (dict_set base ''Nodes'' (PList (fetched_nodes ns))) k = map_of base k)"
      by blast
  qed
  have resp: "\<forall>t l. fetched_nodes (NodesResponse t l) =
          (if t then case l of None \<Rightarrow> [] | Some ns \<Rightarrow> map node_dict ns else [])"
    by (simp add: fetched_nodes_def split: option.splits)
  have nores: "fetched_nodes NoResponse = []"
    by (simp add: fetched_nodes_def)
  have succ: "\<forall>info ns. get_info_reply c (info_calls s) = Inr info \<and> (info = PNone \<or> is_dict info)
          \<and> get_nodes_reply c (nodes_calls s) = Inr ns \<longrightarrow>
          (\<exists>items. fst (fetch_data (Some c) s) = Inr (PDict items)
                 \<and> map_of items ''Nodes'' = Some (PList (fetched_nodes ns)))"
  proof (intro allI impI, elim conjE)
    fix info ns
    assume i: "get_info_reply c (info_calls s) = Inr info" and w: "info = PNone \<or> is_dict info"
      and n: "get_nodes_reply c (nodes_calls s) = Inr ns"
    from w obtain base where b: "info = PNone \<and> base = [] \<or> info = PDict base"
      by (cases info) (auto simp: is_dict_def)
    then have "set_item (if info = PNone then PDict [] else info) ''Nodes''
                 (PList (fetched_nodes ns))
            = Inr (PDict (dict_set base ''Nodes'' (PList (fetched_nodes ns))))"
      by (auto simp: set_item_def)
    then have "fst (fetch_data (Some c) s)
            = Inr (PDict (dict_set base ''Nodes'' (PList (fetched_nodes ns))))"
      by (simp add: fetch_data_Some i n)
    then show "\<exists>items. fst (fetch_data (Some c) s) = Inr (PDict items)
                 \<and> map_of items ''Nodes'' = Some (PList (fetched_nodes ns))"
      using map_of_dict_set_same by blast
  qed
  show ?thesis by (intro conjI; fact)
qed

theorem fetch_data_merges_witness:
  "fetch_data
     (Some \<lparr>get_info_reply = (\<lambda>n. Inr (PDict [(''General'', PDict [])])),
          get_nodes_reply =
            (\<lambda>n. Inr (NodesResponse True (Some [NodeInfo [(''Node'', PInt 1)]])))\<rparr>)
     \<lparr>info_calls = 0, nodes_calls = 0\<rparr>
     = (Inr (PDict [(''General'', PDict []), (''Nodes'', PList [PDict [(''Node'', PInt 1)]])]),
        \<lparr>info_calls = 1, nodes_calls = 1\<rparr>)
   \<and> (\<exists>base ns.
          PDict [(''General'', PDict []), (''Nodes'', PList [PDict [(''Node'', PInt 1)]])]
            = PDict (dict_set base ''Nodes'' (PList (fetched_nodes ns)))
        \<and> dict_get (dict_set base ''Nodes'' (PList (fetched_nodes ns))) ''Nodes''
            = PList (fetched_nodes ns))
   \<and> (\<exists>items. fst (fetch_data
          (Some \<lparr>get_info_reply = (\<lambda>n. Inr (PDict [(''General'', PDict [])])),
          get_nodes_reply =
            (\<lambda>n. Inr (NodesResponse True (Some [NodeInfo [(''Node'', PInt 1)]])))\<rparr>)
          \<lparr>info_calls = 0, nodes_calls = 0\<rparr>) = Inr (PDict items)
        \<and> map_of items ''Nodes''
            = Some (PList (fetched_nodes (NodesResponse True (Some [NodeInfo [(''Node'', PInt 1)]])))))"
proof -
  define c where "c = \<lparr>get_info_reply = (\<lambda>n. Inr (PDict [(''General'', PDict [])])),
          get_nodes_reply =
            (\<lambda>n. Inr (NodesResponse True (Some [NodeInfo [(''Node'', PInt 1)]])))\<rparr>"
  define s where "s = \<lparr>info_calls = 0, nodes_calls = 0\<rparr>"
  note T = fetch_data_merges [of c s "PDict [(''General'', PDict []), (''Nodes'', PList [PDict [(''Node'', PInt 1)]])]"
      "\<lparr>info_calls = 1, nodes_calls = 1\<rparr>"]
  have run: "fetch_data (Some c) s = (Inr (PDict [(''General'', PDict []), (''Nodes'', PList [PDict [(''Node'', PInt 1)]])]),
      \<lparr>info_calls = 1, nodes_calls = 1\<rparr>)"
    by (simp add: fetch_data_Some c_def s_def fetched_nodes_def set_item_def dict_set_def)
  from T [THEN conjunct1, rule_format, OF run]
  have 1: "\<exists>base ns.
          PDict [(''General'', PDict []), (''Nodes'', PList [PDict [(''Node'', PInt 1)]])]
            = PDict (dict_set base ''Nodes'' (PList (fetched_nodes ns)))
        \<and> dict_get (dict_set base ''Nodes'' (PList (fetched_nodes ns))) ''Nodes''
            = PList (fetched_nodes ns)"
    by blast
  have h: "get_info_reply c (info_calls s) = Inr (PDict [(''General'', PDict [])])
      \<and> (PDict [(''General'', PDict [])] = PNone \<or> is_dict (PDict [(''General'', PDict [])]))
      \<and> get_nodes_reply c (nodes_calls s)
          = Inr (NodesResponse True (Some [NodeInfo [(''Node'', PInt 1)]]))"
    by (simp add: c_def s_def is_dict_def)
  from T [THEN conjunct2, THEN conjunct2, THEN conjunct2, rule_format, OF h]
  have 2: "\<exists>items. fst (fetch_data (Some c) s) = Inr (PDict items)
        \<and> map_of items ''Nodes''
            = Some (PList (fetched_nodes (NodesResponse True (Some [NodeInfo [(''Node'', PInt 1)]]))))" .
  show ?thesis using run 1 2 unfolding c_def s_def by (intro conjI)
qed

lemma fetch_data_Nodes_list:
  assumes "fetch_data cl s = (Inr d, s')"
  shows "\<exists>items ns. d = PDict items \<and> map_of items ''Nodes'' = Some (PList ns)"
proof (cases cl)
  case None
  with assms show ?thesis by (simp add: fetch_data_def)
next
  case (Some c)
  from fetch_data_success [OF assms [unfolded Some]] show ?thesis
    using map_of_dict_set_same by blast
qed

lemma async_update_data_fetch:
  "async_update_data cl s =
     (case fst (fetch_data cl s) of Inl e \<Rightarrow> Inl (UpdateFailed e) | Inr d \<Rightarrow> Inr d,
      snd (fetch_data cl s))"
  by (simp add: async_update_data_def split: prod.splits sum.splits)

text \<open>
  C6. Whatever exception \<open>_fetch_data\<close> raises, \<open>_async_update_data\<close> raises
  \<open>UpdateFailed\<close> wrapping it, the missing client included; it returns a mapping only when
  \<open>_fetch_data\<close> returned that mapping, which then binds Nodes to a list; and one update
  makes at most one \<open>get_info\<close> and one \<open>get_nodes\<close> call: none after a failed \<open>get_info\<close>,
  no second attempt after a failed \<open>get_nodes\<close>.
\<close>

theorem async_update_data_surfaces:
  "(\<forall>e s1. fetch_data cl s = (Inl e, s1) \<longrightarrow>
        async_update_data cl s = (Inl (UpdateFailed e), s1))
   \<and> (\<forall>d s1. async_update_data cl s = (Inr d, s1) \<longrightarrow>
        fetch_data cl s = (Inr d, s1)
      \<and> (\<exists>items ns. d = PDict items \<and> map_of items ''Nodes'' = Some (PList ns)))
   \<and> info_calls (snd (async_update_data cl s)) \<le> info_calls s + 1
   \<and> nodes_calls (snd (async_update_data cl s)) \<le> nodes_calls s + 1
   \<and> async_update_data None s
       = (Inl (UpdateFailed (Exception ''Duco client is not initialized'')), s)
   \<and> (\<forall>c e. get_info_reply c (info_calls s) = Inl e \<longrightarrow>
        async_update_data (Some c) s
          = (Inl (UpdateFailed e), s\<lparr>info_calls := Suc (info_calls s)\<rparr>))
   \<and> (\<forall>c info e. get_info_reply c (info_calls s) = Inr info
        \<and> get_nodes_reply c (nodes_calls s) = Inl e \<longrightarrow>
        async_update_data (Some c) s
          = (Inl (UpdateFailed e),
             s\<lparr>info_calls := Suc (info_calls s), nodes_calls := Suc (nodes_calls s)\<rparr>))"
proof -
  have wrap: "\<forall>e s1. fetch_data cl s = (Inl e, s1) \<longrightarrow>
        async_update_data cl s = (Inl (UpdateFailed e), s1)"
    by (simp add: async_update_data_def)
  have whole: "\<forall>d s1. async_update_data cl s = (Inr d, s1) \<longrightarrow>
        fetch_data cl s = (Inr d, s1)
      \<and> (\<exists>items ns. d = PDict items \<and> map_of items ''Nodes'' = Some (PList ns))"
  proof (intro allI impI)
    fix d s1 assume a: "async_update_data cl s = (Inr d, s1)"
    then have f: "fetch_data cl s = (Inr d, s1)"
      by (auto simp: async_update_data_def split: prod.splits sum.splits)
    with fetch_data_Nodes_list [OF f]
    show "fetch_data cl s = (Inr d, s1)
      \<and> (\<exists>items ns. d = PDict items \<and> map_of items ''Nodes'' = Some (PList ns))"
      by simp
  qed
  have once1: "info_calls (snd (async_update_data cl s)) \<le> info_calls s + 1"
    using fetch_data_calls [of cl s] by (simp add: async_update_data_fetch)
  have once2: "nodes_calls (snd (async_update_data cl s)) \<le> nodes_calls s + 1"
    using fetch_data_calls [of cl s] by (simp add: async_update_data_fetch)
  have uninit: "async_update_data None s
       = (Inl (UpdateFailed (Exception ''Duco client is not initialized'')), s)"
    by (simp add: async_update_data_def fetch_data_def)
  have info_fails: "\<forall>c e. get_info_reply c (info_calls s) = Inl e \<longrightarrow>
        async_update_data (Some c) s
          = (Inl (UpdateFailed e), s\<lparr>info_calls := Suc (info_calls s)\<rparr>)"
    by (simp add: async_update_data_def fetch_data_Some)
  have nodes_fails: "\<forall>c info e. get_info_reply c (info_calls s) = Inr info
        \<and> get_nodes_reply c (nodes_calls s) = Inl e \<longrightarrow>
        async_update_data (Some c) s
          = (Inl (UpdateFailed e),
             s\<lparr>info_calls := Suc (info_calls s), nodes_calls := Suc (nodes_calls s)\<rparr>)"
    by (simp add: async_update_data_def fetch_data_Some)
  show ?thesis by (intro conjI; fact)
qed

theorem async_update_data_surfaces_witness:
  "get_info_reply
      \<lparr>get_info_reply = (\<lambda>n. Inr PNone),
       get_nodes_reply = (\<lambda>n. Inl (ClientError ''timeout''))\<rparr>
      (info_calls \<lparr>info_calls = 0, nodes_calls = 0\<rparr>) = Inr PNone
   \<and> get_nodes_reply
      \<lparr>get_info_reply = (\<lambda>n. Inr PNone),
       get_nodes_reply = (\<lambda>n. Inl (ClientError ''timeout''))\<rparr>
      (nodes_calls \<lparr>info_calls = 0, nodes_calls = 0\<rparr>) = Inl (ClientError ''timeout'')
   \<and> fetch_data
      (Some \<lparr>get_info_reply = (\<lambda>n. Inr PNone),
       get_nodes_reply = (\<lambda>n. Inl (ClientError ''timeout''))\<rparr>)
      \<lparr>info_calls = 0, nodes_calls = 0\<rparr>
     = (Inl (ClientError ''timeout''), \<lparr>info_calls = 1, nodes_calls = 1\<rparr>)
   \<and> async_update_data
      (Some \<lparr>get_info_reply = (\<lambda>n. Inr PNone),
       get_nodes_reply = (\<lambda>n. Inl (ClientError ''timeout''))\<rparr>)
      \<lparr>info_calls = 0, nodes_calls = 0\<rparr>
     = (Inl (UpdateFailed (ClientError ''timeout'')), \<lparr>info_calls = 1, nodes_calls = 1\<rparr>)
   \<and> get_info_reply
      \<lparr>get_info_reply = (\<lambda>n. Inl (ClientError ''refused'')),
       get_nodes_reply = (\<lambda>n. Inr NoResponse)\<rparr>
      (info_calls \<lparr>info_calls = 0, nodes_calls = 0\<rparr>) = Inl (ClientError ''refused'')
   \<and> async_update_data
      (Some \<lparr>get_info_reply = (\<lambda>n. Inl (ClientError ''refused'')),
       get_nodes_reply = (\<lambda>n. Inr NoResponse)\<rparr>)
      \<lparr>info_calls = 0, nodes_calls = 0\<rparr>
     = (Inl (UpdateFailed (ClientError ''refused'')), \<lparr>info_calls = 1, nodes_calls = 0\<rparr>)
   \<and> async_update_data
      (Some \<lparr>get_info_reply = (\<lambda>n. Inr PNone),
       get_nodes_reply = (\<lambda>n. Inr NoResponse)\<rparr>)
      \<lparr>info_calls = 0, nodes_calls = 0\<rparr>
     = (Inr (PDict [(''Nodes'', PList [])]), \<lparr>info_calls = 1, nodes_calls = 1\<rparr>)
   \<and> fetch_data
      (Some \<lparr>get_info_reply = (\<lambda>n. Inr PNone),
       get_nodes_reply = (\<lambda>n. Inr NoResponse)\<rparr>)
      \<lparr>info_calls = 0, nodes_calls = 0\<rparr>
     = (Inr (PDict [(''Nodes'', PList [])]), \<lparr>info_calls = 1, nodes_calls = 1\<rparr>)"
proof -
  define ca where "ca = \<lparr>get_info_reply = (\<lambda>n. Inr PNone),
       get_nodes_reply = (\<lambda>n. Inl (ClientError ''timeout''))\<rparr>"
  define cb where "cb = \<lparr>get_info_reply = (\<lambda>n. Inl (ClientError ''refused'')),
       get_nodes_reply = (\<lambda>n. Inr NoResponse)\<rparr>"
  define cc where "cc = \<lparr>get_info_reply = (\<lambda>n. Inr PNone),
       get_nodes_reply = (\<lambda>n. Inr NoResponse)\<rparr>"
  define s where "s = \<lparr>info_calls = 0, nodes_calls = 0\<rparr>"
  have s1: "s\<lparr>info_calls := Suc (info_calls s)\<rparr> = \<lparr>info_calls = 1, nodes_calls = 0\<rparr>"
    by (simp add: s_def)
  have s2: "s\<lparr>info_calls := Suc (info_calls s), nodes_calls := Suc (nodes_calls s)\<rparr>
      = \<lparr>info_calls = 1, nodes_calls = 1\<rparr>"
    by (simp add: s_def)
  have ha: "get_info_reply ca (info_calls s) = Inr PNone
        \<and> get_nodes_reply ca (nodes_calls s) = Inl (ClientError ''timeout'')"
    by (simp add: ca_def s_def)
  have fa: "fetch_data (Some ca) s = (Inl (ClientError ''timeout''), \<lparr>info_calls = 1, nodes_calls = 1\<rparr>)"
    by (simp add: fetch_data_Some ca_def s_def)
  from async_update_data_surfaces [of "Some ca" s, THEN conjunct1, rule_format, OF fa]
  have a1: "async_update_data (Some ca) s
     = (Inl (UpdateFailed (ClientError ''timeout'')), \<lparr>info_calls = 1, nodes_calls = 1\<rparr>)" .
  from async_update_data_surfaces [of "Some ca" s, THEN conjunct2, THEN conjunct2,
      THEN conjunct2, THEN conjunct2, THEN conjunct2, THEN conjunct2, rule_format, OF ha]
  have a2: "async_update_data (Some ca) s
     = (Inl (UpdateFailed (ClientError ''timeout'')), \<lparr>info_calls = 1, nodes_calls = 1\<rparr>)"
    unfolding s2 .
  have hb: "get_info_reply cb (info_calls s) = Inl (ClientError ''refused'')"
    by (simp add: cb_def s_def)
  from async_update_data_surfaces [of "Some cb" s, THEN conjunct2, THEN conjunct2,
      THEN conjunct2, THEN conjunct2, THEN conjunct2, THEN conjunct1, rule_format, OF hb]
  have b: "async_update_data (Some cb) s
     = (Inl (UpdateFailed (ClientError ''refused'')), \<lparr>info_calls = 1, nodes_calls = 0\<rparr>)"
    unfolding s1 .
  have hc: "async_update_data (Some cc) s = (Inr (PDict [(''Nodes'', PList [])]), \<lparr>info_calls = 1, nodes_calls = 1\<rparr>)"
    by (simp add: async_update_data_def fetch_data_Some cc_def s_def fetched_nodes_def
        set_item_def dict_set_def)
  from async_update_data_surfaces [of "Some cc" s, THEN conjunct2, THEN conjunct1,
      rule_format, OF hc]
  have c: "fetch_data (Some cc) s = (Inr (PDict [(''Nodes'', PList [])]), \<lparr>info_calls = 1, nodes_calls = 1\<rparr>)"
    by (rule conjunct1)
  show ?thesis using ha fa a1 a2 hb b hc c unfolding ca_def cb_def cc_def s_def
    by (simp only: simp_thms)
qed

section \<open>The entities\<close>

text \<open>
  \<^verbatim>\<open>
  class DucoboxSensorEntity(CoordinatorEntity[DucoboxCoordinator], SensorEntity):
      @property
      def native_value(self) -> Any:
          try:
              return self.entity_description.value_fn(self.coordinator.data)
          except Exception as e:
              _LOGGER.debug(f"Error getting value for {self.name}: {e}")
              return None

  class DucoboxNodeSensorEntity(CoordinatorEntity[DucoboxCoordinator], SensorEntity):
      def __init__(self, coordinator, node_id: int, description, ...):
          ...
          self._node_id = node_id

      @property
      def native_value(self) -> Any:
          nodes = self.coordinator.data.get('Nodes', [])
          for node in nodes:
              if node.get('Node') == self._node_id:
                  try:
                      return self.entity_description.value_fn(node)
                  except Exception as e:
                      _LOGGER.debug(f"Error getting value for {self.name}: {e}")
                      return None
  \<close>
  The coordinator is shared by the entities, so a property takes it as an argument and
  returns it with its result. For a box entity the coordinator's data is a reference
  into the store, which the accessor receives and the property passes on as the accessor
  left it; \<open>box_entities\<close> are the box entities that \<open>async_setup_entry\<close> creates, one for
  each description of \<open>SENSORS\<close>:
  \<^verbatim>\<open>
  for description in SENSORS:
      unique_id = f"{device_id}-{description.key}"
      entities.append(DucoboxSensorEntity(coordinator=coordinator,
          description=description, device_info=device_info, unique_id=unique_id))
  \<close>
  where the constructor sets \<open>_attr_name = f"{device_info['name']} {description.name}"\<close> and
  the device's name is the device id. For a node entity the data is the mapping as a
  value. The node id is an \<open>int\<close>, as the constructor declares it, and
  \<open>py_eq_int\<close> is Python's \<open>==\<close> of a value with an int. Outside the \<open>try\<close>, \<open>.get\<close> on a
  value that is not a dict raises AttributeError and a loop over a value that is not
  iterable raises TypeError; a loop that ends without a match returns \<open>None\<close>.
\<close>

record 'v DucoboxCoordinator =
  duco_client :: "DucoPy option"
  data :: 'v
  last_update_success :: bool

record 'd CoordinatorEntity =
  entity_description :: 'd
  attr_unique_id :: string
  attr_name :: string

type_synonym DucoboxSensorEntity = "DucoboxSensorEntityDescription CoordinatorEntity"

record DucoboxNodeSensorEntity = "DucoboxNodeSensorEntityDescription CoordinatorEntity" +
  node_id :: int

definition available :: "('d, 'z) CoordinatorEntity_scheme \<Rightarrow> 'v DucoboxCoordinator \<Rightarrow> bool" where
  "available self coordinator = last_update_success coordinator"

definition box_entities :: "(string \<Rightarrow> pyfloat option) \<Rightarrow> string \<Rightarrow> DucoboxSensorEntity list" where
  "box_entities str_to_float device_id =
     map (\<lambda>description.
            \<lparr>entity_description = description,
             attr_unique_id = device_id @ ''-'' @ key description,
             attr_name = device_id @ '' '' @ name description\<rparr>)
         (SENSORS str_to_float)"

definition DucoboxSensorEntity_native_value ::
    "DucoboxSensorEntity \<Rightarrow> hval DucoboxCoordinator \<Rightarrow> heap
       \<Rightarrow> hval \<times> hval DucoboxCoordinator \<times> heap" where
  "DucoboxSensorEntity_native_value self coordinator h =
     (case value_fn (entity_description self) (data coordinator) h of
        (Inr v, h') \<Rightarrow> (v, coordinator, h')
      | (Inl e, h') \<Rightarrow> (Val PNone, coordinator, h'))"

fun py_iter :: "pyval \<Rightarrow> pyerror + pyval list" where
  "py_iter (PList xs) = Inr xs"
| "py_iter (PDict d) = Inr (map (\<lambda>(k, v). PStr k) d)"
| "py_iter (PStr s) = Inr (map (\<lambda>c. PStr [c]) s)"
| "py_iter v = Inl TypeError"

fun py_eq_int :: "pyval \<Rightarrow> int \<Rightarrow> bool" where
  "py_eq_int (PInt i) n = (i = n)"
| "py_eq_int (PBool b) n = ((if b then 1 else 0) = n)"
| "py_eq_int (PFloat (Fin r)) n = (r = of_int n)"
| "py_eq_int v n = False"

fun find_node :: "(pyval \<Rightarrow> pyerror + pyval) \<Rightarrow> int \<Rightarrow> pyval list \<Rightarrow> pyerror + pyval" where
  "find_node f nid [] = Inr PNone"
| "find_node f nid (node # nodes) =
     (case node of
        PDict d \<Rightarrow>
          (if py_eq_int (dict_get d ''Node'') nid
           then Inr (case f node of Inr v \<Rightarrow> v | Inl e \<Rightarrow> PNone)
           else find_node f nid nodes)
      | _ \<Rightarrow> Inl AttributeError)"

definition DucoboxNodeSensorEntity_native_value ::
    "DucoboxNodeSensorEntity \<Rightarrow> pyval DucoboxCoordinator
       \<Rightarrow> (pyerror + pyval) \<times> pyval DucoboxCoordinator" where
  "DucoboxNodeSensorEntity_native_value self coordinator =
     (case data coordinator of
        PDict d \<Rightarrow>
          (case py_iter (case map_of d ''Nodes'' of None \<Rightarrow> PList [] | Some v \<Rightarrow> v) of
             Inl e \<Rightarrow> Inl e
           | Inr nodes \<Rightarrow> find_node (value_fn (entity_description self)) (node_id self) nodes)
      | _ \<Rightarrow> Inl AttributeError,
      coordinator)"

lemma find_node_find:
  assumes "list_all is_dict nodes"
  shows "find_node f nid nodes =
           Inr (case find (\<lambda>node. py_eq_int (lookup1 node ''Node'') nid) nodes of
                  None \<Rightarrow> PNone
                | Some node \<Rightarrow> (case f node of Inr v \<Rightarrow> v | Inl e \<Rightarrow> PNone))"
  using assms
proof (induction nodes)
  case Nil
  show ?case by simp
next
  case (Cons node nodes)
  from Cons.prems obtain d where d: "node = PDict d"
    by (cases node) (simp_all add: is_dict_def)
  from Cons.prems have "list_all is_dict nodes" by simp
  from Cons.IH [OF this] show ?case by (simp add: d lookup1_def)
qed

text \<open>
  The accessors of \<open>SENSORS\<close> only read the store: \<open>safe_get\<close> calls
  \<^verbatim>\<open>isinstance\<close> and \<^verbatim>\<open>dict.get\<close>, and the conversions work on the value that was read.
\<close>

lemma then_apply_heap: "snd (then_apply (safe_get_h v keys h) f) = h"
proof -
  from safe_get_h_returns [of v keys h] obtain x where "fst (safe_get_h v keys h) = Inr x"
    by blast
  with safe_get_h_heap [of v keys h] have "safe_get_h v keys h = (Inr x, h)"
    by (cases "safe_get_h v keys h") simp
  then show ?thesis by (simp add: then_apply_def)
qed

lemma SENSORS_read_only:
  assumes "d \<in> set (SENSORS str_to_float)"
  shows "snd (value_fn d v h) = h"
  using assms by (auto simp add: SENSORS_def then_apply_heap simp del: safe_get_h.simps)

lemma box_entities_descriptions:
  assumes "e \<in> set (box_entities str_to_float device_id)"
  shows "entity_description e \<in> set (SENSORS str_to_float)"
  using assms by (auto simp: box_entities_def)

text \<open>
  \<open>native_value\<close> itself passes on whatever its accessor does to the store: with an accessor
  that assigns to a key of the cached dictionary, the dictionary is changed after the call.
  None of the descriptions of \<open>SENSORS\<close> is of that kind, which is what the theorem
  below establishes.
\<close>

lemma accessor_writes_are_passed_on:
  "snd (snd (DucoboxSensorEntity_native_value
       \<lparr>entity_description =
          \<lparr>key = ''Seen'', name = ''Seen'', native_unit_of_measurement = None,
           state_class = None, device_class = None,
           value_fn = (\<lambda>data h. dict_setitem data ''seen'' (Val (PBool True)) h)\<rparr>,
        attr_unique_id = ''box-Seen'', attr_name = ''box Seen''\<rparr>
       \<lparr>duco_client = None, data = Ref 0, last_update_success = True\<rparr>
       (map_of [(0, DictObj [])]))) 0
     = Some (DictObj [(''seen'', Val (PBool True))])"
  by (simp add: DucoboxSensorEntity_native_value_def dict_setitem_def)

text \<open>
  C8. For every coordinator, every store and every box sensor entity, \<open>native_value\<close> is
  the value of the stored accessor applied to the coordinator's data when that application
  returns, and \<open>None\<close> when it raises; the coordinator is returned as it was and the store
  is the one the accessor leaves. Every accessor of \<open>SENSORS\<close> leaves the store as it found
  it, whatever the data and the store, so for every entity that \<open>async_setup_entry\<close> builds
  from \<open>SENSORS\<close>, \<open>native_value\<close> leaves the coordinator and the whole store, the cached
  data included, unchanged.
\<close>

theorem sensor_native_value_reads_accessor:
  "(\<forall>v h'. value_fn (entity_description e) (data c) h = (Inr v, h') \<longrightarrow>
        DucoboxSensorEntity_native_value e c h = (v, c, h'))
   \<and> (\<forall>err h'. value_fn (entity_description e) (data c) h = (Inl err, h') \<longrightarrow>
        DucoboxSensorEntity_native_value e c h = (Val PNone, c, h'))
   \<and> snd (DucoboxSensorEntity_native_value e c h)
       = (c, snd (value_fn (entity_description e) (data c) h))
   \<and> (\<forall>str_to_float. \<forall>d \<in> set (SENSORS str_to_float). \<forall>v h0.
         snd (value_fn d v h0) = h0)
   \<and> (\<forall>str_to_float device_id. e \<in> set (box_entities str_to_float device_id) \<longrightarrow>
        snd (DucoboxSensorEntity_native_value e c h) = (c, h)
      \<and> fst (DucoboxSensorEntity_native_value e c h) =
          (case fst (value_fn (entity_description e) (data c) h) of
             Inr v \<Rightarrow> v
           | Inl err \<Rightarrow> Val PNone))"
proof -
  have ret: "\<forall>v h'. value_fn (entity_description e) (data c) h = (Inr v, h') \<longrightarrow>
        DucoboxSensorEntity_native_value e c h = (v, c, h')"
    by (simp add: DucoboxSensorEntity_native_value_def)
  have exc: "\<forall>err h'. value_fn (entity_description e) (data c) h = (Inl err, h') \<longrightarrow>
        DucoboxSensorEntity_native_value e c h = (Val PNone, c, h')"
    by (simp add: DucoboxSensorEntity_native_value_def)
  have frame: "snd (DucoboxSensorEntity_native_value e c h)
       = (c, snd (value_fn (entity_description e) (data c) h))"
    by (simp add: DucoboxSensorEntity_native_value_def split: prod.splits sum.splits)
  have val: "fst (DucoboxSensorEntity_native_value e c h) =
          (case fst (value_fn (entity_description e) (data c) h) of
             Inr v \<Rightarrow> v
           | Inl err \<Rightarrow> Val PNone)"
    by (simp add: DucoboxSensorEntity_native_value_def split: prod.splits sum.splits)
  have table: "\<forall>str_to_float. \<forall>d \<in> set (SENSORS str_to_float). \<forall>v h0.
         snd (value_fn d v h0) = h0"
    by (simp add: SENSORS_read_only)
  have built: "\<forall>str_to_float device_id. e \<in> set (box_entities str_to_float device_id) \<longrightarrow>
        snd (DucoboxSensorEntity_native_value e c h) = (c, h)
      \<and> fst (DucoboxSensorEntity_native_value e c h) =
          (case fst (value_fn (entity_description e) (data c) h) of
             Inr v \<Rightarrow> v
           | Inl err \<Rightarrow> Val PNone)"
  proof (intro allI impI)
    fix str_to_float device_id
    assume "e \<in> set (box_entities str_to_float device_id)"
    then have "entity_description e \<in> set (SENSORS str_to_float)"
      by (rule box_entities_descriptions)
    then have "snd (value_fn (entity_description e) (data c) h) = h"
      by (rule SENSORS_read_only)
    with frame val show "snd (DucoboxSensorEntity_native_value e c h) = (c, h)
      \<and> fst (DucoboxSensorEntity_native_value e c h) =
          (case fst (value_fn (entity_description e) (data c) h) of
             Inr v \<Rightarrow> v
           | Inl err \<Rightarrow> Val PNone)"
      by simp
  qed
  show ?thesis by (intro conjI; fact)
qed

theorem sensor_native_value_reads_accessor_witness:
  "box_entities (\<lambda>s. None) ''box'' ! 4 \<in> set (box_entities (\<lambda>s. None) ''box'')
   \<and> attr_unique_id (box_entities (\<lambda>s. None) ''box'' ! 4) = ''box-SpeedSup''
   \<and> value_fn (entity_description (box_entities (\<lambda>s. None) ''box'' ! 4))
       (data \<lparr>duco_client = None, data = Ref 0, last_update_success = True\<rparr>)
       (map_of
          [(0, DictObj [(''Ventilation'', Ref 1)]),
           (1, DictObj [(''Fan'', Ref 2), (''Sensor'', Ref 4)]),
           (2, DictObj [(''SpeedSup'', Ref 3)]),
           (3, DictObj [(''Val'', Val (PInt 1200))]),
           (4, DictObj [(''TempOda'', Ref 5)]),
           (5, DictObj [(''Val'', Val (PStr ''n/a''))])])
     = (Inr (Val (PInt 1200)),
        (map_of
          [(0, DictObj [(''Ventilation'', Ref 1)]),
           (1, DictObj [(''Fan'', Ref 2), (''Sensor'', Ref 4)]),
           (2, DictObj [(''SpeedSup'', Ref 3)]),
           (3, DictObj [(''Val'', Val (PInt 1200))]),
           (4, DictObj [(''TempOda'', Ref 5)]),
           (5, DictObj [(''Val'', Val (PStr ''n/a''))])]))
   \<and> DucoboxSensorEntity_native_value (box_entities (\<lambda>s. None) ''box'' ! 4)
       \<lparr>duco_client = None, data = Ref 0, last_update_success = True\<rparr>
       (map_of
          [(0, DictObj [(''Ventilation'', Ref 1)]),
           (1, DictObj [(''Fan'', Ref 2), (''Sensor'', Ref 4)]),
           (2, DictObj [(''SpeedSup'', Ref 3)]),
           (3, DictObj [(''Val'', Val (PInt 1200))]),
           (4, DictObj [(''TempOda'', Ref 5)]),
           (5, DictObj [(''Val'', Val (PStr ''n/a''))])])
     = (Val (PInt 1200),
        \<lparr>duco_client = None, data = Ref 0, last_update_success = True\<rparr>,
        (map_of
          [(0, DictObj [(''Ventilation'', Ref 1)]),
           (1, DictObj [(''Fan'', Ref 2), (''Sensor'', Ref 4)]),
           (2, DictObj [(''SpeedSup'', Ref 3)]),
           (3, DictObj [(''Val'', Val (PInt 1200))]),
           (4, DictObj [(''TempOda'', Ref 5)]),
           (5, DictObj [(''Val'', Val (PStr ''n/a''))])]))
   \<and> box_entities (\<lambda>s. None) ''box'' ! 0 \<in> set (box_entities (\<lambda>s. None) ''box'')
   \<and> attr_unique_id (box_entities (\<lambda>s. None) ''box'' ! 0) = ''box-TempOda''
   \<and> value_fn (entity_description (box_entities (\<lambda>s. None) ''box'' ! 0))
       (data \<lparr>duco_client = None, data = Ref 0, last_update_success = True\<rparr>)
       (map_of
          [(0, DictObj [(''Ventilation'', Ref 1)]),
           (1, DictObj [(''Fan'', Ref 2), (''Sensor'', Ref 4)]),
           (2, DictObj [(''SpeedSup'', Ref 3)]),
           (3, DictObj [(''Val'', Val (PInt 1200))]),
           (4, DictObj [(''TempOda'', Ref 5)]),
           (5, DictObj [(''Val'', Val (PStr ''n/a''))])])
     = (Inl TypeError,
        (map_of
          [(0, DictObj [(''Ventilation'', Ref 1)]),
           (1, DictObj [(''Fan'', Ref 2), (''Sensor'', Ref 4)]),
           (2, DictObj [(''SpeedSup'', Ref 3)]),
           (3, DictObj [(''Val'', Val (PInt 1200))]),
           (4, DictObj [(''TempOda'', Ref 5)]),
           (5, DictObj [(''Val'', Val (PStr ''n/a''))])]))
   \<and> DucoboxSensorEntity_native_value (box_entities (\<lambda>s. None) ''box'' ! 0)
       \<lparr>duco_client = None, data = Ref 0, last_update_success = True\<rparr>
       (map_of
          [(0, DictObj [(''Ventilation'', Ref 1)]),
           (1, DictObj [(''Fan'', Ref 2), (''Sensor'', Ref 4)]),
           (2, DictObj [(''SpeedSup'', Ref 3)]),
           (3, DictObj [(''Val'', Val (PInt 1200))]),
           (4, DictObj [(''TempOda'', Ref 5)]),
           (5, DictObj [(''Val'', Val (PStr ''n/a''))])])
     = (Val PNone,
        \<lparr>duco_client = None, data = Ref 0, last_update_success = True\<rparr>,
        (map_of
          [(0, DictObj [(''Ventilation'', Ref 1)]),
           (1, DictObj [(''Fan'', Ref 2), (''Sensor'', Ref 4)]),
           (2, DictObj [(''SpeedSup'', Ref 3)]),
           (3, DictObj [(''Val'', Val (PInt 1200))]),
           (4, DictObj [(''TempOda'', Ref 5)]),
           (5, DictObj [(''Val'', Val (PStr ''n/a''))])]))
   \<and> snd (DucoboxSensorEntity_native_value (box_entities (\<lambda>s. None) ''box'' ! 0)
       \<lparr>duco_client = None, data = Ref 0, last_update_success = True\<rparr>
       (map_of
          [(0, DictObj [(''Ventilation'', Ref 1)]),
           (1, DictObj [(''Fan'', Ref 2), (''Sensor'', Ref 4)]),
           (2, DictObj [(''SpeedSup'', Ref 3)]),
           (3, DictObj [(''Val'', Val (PInt 1200))]),
           (4, DictObj [(''TempOda'', Ref 5)]),
           (5, DictObj [(''Val'', Val (PStr ''n/a''))])]))
     = (\<lparr>duco_client = None, data = Ref 0, last_update_success = True\<rparr>,
        (map_of
          [(0, DictObj [(''Ventilation'', Ref 1)]),
           (1, DictObj [(''Fan'', Ref 2), (''Sensor'', Ref 4)]),
           (2, DictObj [(''SpeedSup'', Ref 3)]),
           (3, DictObj [(''Val'', Val (PInt 1200))]),
           (4, DictObj [(''TempOda'', Ref 5)]),
           (5, DictObj [(''Val'', Val (PStr ''n/a''))])]))"
proof -
  define h :: heap where "h = (map_of
          [(0, DictObj [(''Ventilation'', Ref 1)]),
           (1, DictObj [(''Fan'', Ref 2), (''Sensor'', Ref 4)]),
           (2, DictObj [(''SpeedSup'', Ref 3)]),
           (3, DictObj [(''Val'', Val (PInt 1200))]),
           (4, DictObj [(''TempOda'', Ref 5)]),
           (5, DictObj [(''Val'', Val (PStr ''n/a''))])])"
  define c :: "hval DucoboxCoordinator" where "c = \<lparr>duco_client = None, data = Ref 0, last_update_success = True\<rparr>"
  define e4 where "e4 = box_entities (\<lambda>s. None) ''box'' ! 4"
  define e0 where "e0 = box_entities (\<lambda>s. None) ''box'' ! 0"
  have len: "length (box_entities (\<lambda>s. None) ''box'') = 12"
    by (simp add: box_entities_def SENSORS_def)
  have m4: "e4 \<in> set (box_entities (\<lambda>s. None) ''box'')"
    unfolding e4_def by (rule nth_mem) (simp add: len)
  have m0: "e0 \<in> set (box_entities (\<lambda>s. None) ''box'')"
    unfolding e0_def by (rule nth_mem) (simp add: len)
  have u4: "attr_unique_id e4 = ''box-SpeedSup''"
    by (simp add: e4_def box_entities_def SENSORS_def)
  have u0: "attr_unique_id e0 = ''box-TempOda''"
    by (simp add: e0_def box_entities_def SENSORS_def)
  have v4: "value_fn (entity_description e4) (data c) h = (Inr (Val (PInt 1200)), h)"
    by (simp add: e4_def c_def h_def box_entities_def SENSORS_def then_apply_def
        isinstance_dict_def dict_get_method_def returned_def process_speed_def)
  have v0: "value_fn (entity_description e0) (data c) h = (Inl TypeError, h)"
    by (simp add: e0_def c_def h_def box_entities_def SENSORS_def then_apply_def
        isinstance_dict_def dict_get_method_def on_value_def process_temperature_def
        py_truediv_def)
  note T4 = sensor_native_value_reads_accessor [of e4 c h]
  note T0 = sensor_native_value_reads_accessor [of e0 c h]
  from T4 [THEN conjunct1, rule_format, OF v4]
  have n4: "DucoboxSensorEntity_native_value e4 c h = (Val (PInt 1200), c, h)" .
  from T0 [THEN conjunct2, THEN conjunct1, rule_format, OF v0]
  have n0: "DucoboxSensorEntity_native_value e0 c h = (Val PNone, c, h)" .
  from T0 [THEN conjunct2, THEN conjunct2, THEN conjunct2, THEN conjunct2, rule_format, OF m0]
  have s0: "snd (DucoboxSensorEntity_native_value e0 c h) = (c, h)"
    by (rule conjunct1)
  show ?thesis using m4 u4 v4 n4 m0 u0 v0 n0 s0 unfolding e4_def e0_def c_def h_def
    by (simp only: simp_thms)
qed

lemma fetched_nodes_dicts: "list_all is_dict (fetched_nodes ns)"
proof -
  have "is_dict (node_dict n)" for n
    by (cases n) (simp add: is_dict_def)
  then have "list_all is_dict (map node_dict l)" for l
    by (induction l) simp_all
  then show ?thesis by (simp add: fetched_nodes_def)
qed

lemma fetch_data_node_dicts:
  assumes "fetch_data cl s = (Inr d, s')"
  shows "\<exists>items nodes. d = PDict items \<and> map_of items ''Nodes'' = Some (PList nodes)
           \<and> list_all is_dict nodes"
proof (cases cl)
  case None
  with assms show ?thesis by (simp add: fetch_data_def)
next
  case (Some c)
  from fetch_data_success [OF assms [unfolded Some]] show ?thesis
    using map_of_dict_set_same fetched_nodes_dicts by blast
qed

text \<open>
  C9. For a coordinator whose data is a mapping: without the key Nodes the node entity's
  \<open>native_value\<close> is \<open>None\<close>; with Nodes bound to a list of node dicts it is the accessor
  applied to the first node whose Node field equals the stored node id, \<open>None\<close> when that
  application raises and \<open>None\<close> when no node matches. Every mapping that \<open>_fetch_data\<close>
  returns is of that form. The coordinator is left as it was.
\<close>

theorem node_native_value_first_match:
  "(data c = PDict d \<and> map_of d ''Nodes'' = None \<longrightarrow>
        fst (DucoboxNodeSensorEntity_native_value e c) = Inr PNone)
   \<and> (\<forall>nodes. data c = PDict d \<and> map_of d ''Nodes'' = Some (PList nodes)
          \<and> list_all is_dict nodes \<longrightarrow>
        fst (DucoboxNodeSensorEntity_native_value e c) =
          Inr (case find (\<lambda>node. py_eq_int (lookup1 node ''Node'') (node_id e)) nodes of
                 None \<Rightarrow> PNone
               | Some node \<Rightarrow>
                   (case value_fn (entity_description e) node of
                      Inr v \<Rightarrow> v
                    | Inl err \<Rightarrow> PNone)))
   \<and> (\<forall>cl s s'. fetch_data cl s = (Inr (data c), s') \<longrightarrow>
        (\<exists>nodes. safe_get (data c) [''Nodes''] = PList nodes
           \<and> fst (DucoboxNodeSensorEntity_native_value e c) =
               Inr (case find (\<lambda>node. py_eq_int (lookup1 node ''Node'') (node_id e)) nodes of
                      None \<Rightarrow> PNone
                    | Some node \<Rightarrow>
                        (case value_fn (entity_description e) node of
                           Inr v \<Rightarrow> v
                         | Inl err \<Rightarrow> PNone))))
   \<and> snd (DucoboxNodeSensorEntity_native_value e c) = c"
proof -
  have absent: "data c = PDict d \<and> map_of d ''Nodes'' = None \<longrightarrow>
        fst (DucoboxNodeSensorEntity_native_value e c) = Inr PNone"
    by (simp add: DucoboxNodeSensorEntity_native_value_def)
  have present: "fst (DucoboxNodeSensorEntity_native_value e c) =
          Inr (case find (\<lambda>node. py_eq_int (lookup1 node ''Node'') (node_id e)) nodes of
                 None \<Rightarrow> PNone
               | Some node \<Rightarrow>
                   (case value_fn (entity_description e) node of
                      Inr v \<Rightarrow> v
                    | Inl err \<Rightarrow> PNone))"
    if "data c = PDict items \<and> map_of items ''Nodes'' = Some (PList nodes)
          \<and> list_all is_dict nodes" for items nodes
    using that by (simp add: DucoboxNodeSensorEntity_native_value_def find_node_find)
  have fetched: "\<forall>cl s s'. fetch_data cl s = (Inr (data c), s') \<longrightarrow>
        (\<exists>nodes. safe_get (data c) [''Nodes''] = PList nodes
           \<and> fst (DucoboxNodeSensorEntity_native_value e c) =
               Inr (case find (\<lambda>node. py_eq_int (lookup1 node ''Node'') (node_id e)) nodes of
                      None \<Rightarrow> PNone
                    | Some node \<Rightarrow>
                        (case value_fn (entity_description e) node of
                           Inr v \<Rightarrow> v
                         | Inl err \<Rightarrow> PNone)))"
  proof (intro allI impI)
    fix cl s s' assume "fetch_data cl s = (Inr (data c), s')"
    from fetch_data_node_dicts [OF this] obtain items nodes where
      w: "data c = PDict items \<and> map_of items ''Nodes'' = Some (PList nodes)
          \<and> list_all is_dict nodes"
      by blast
    then have "safe_get (data c) [''Nodes''] = PList nodes" by (simp add: dict_get_def)
    with present [OF w] show "\<exists>nodes. safe_get (data c) [''Nodes''] = PList nodes
           \<and> fst (DucoboxNodeSensorEntity_native_value e c) =
               Inr (case find (\<lambda>node. py_eq_int (lookup1 node ''Node'') (node_id e)) nodes of
                      None \<Rightarrow> PNone
                    | Some node \<Rightarrow>
                        (case value_fn (entity_description e) node of
                           Inr v \<Rightarrow> v
                         | Inl err \<Rightarrow> PNone))"
      by blast
  qed
  have same: "snd (DucoboxNodeSensorEntity_native_value e c) = c"
    by (simp add: DucoboxNodeSensorEntity_native_value_def)
  show ?thesis using absent present fetched same by (intro conjI) blast+
qed

theorem node_native_value_first_match_witness:
  "data \<lparr>duco_client = None, data = PDict [(''Nodes'', PList [PDict [(''Node'', PInt 1)],
          PDict [(''Node'', PInt 2),
                 (''Sensor'', PDict [(''data'', PDict [(''Co2'', PInt 612)])])]])],
          last_update_success = True\<rparr> = PDict [(''Nodes'', PList [PDict [(''Node'', PInt 1)],
          PDict [(''Node'', PInt 2),
                 (''Sensor'', PDict [(''data'', PDict [(''Co2'', PInt 612)])])]])]
   \<and> map_of [(''Nodes'', PList [PDict [(''Node'', PInt 1)],
          PDict [(''Node'', PInt 2),
                 (''Sensor'', PDict [(''data'', PDict [(''Co2'', PInt 612)])])]])] ''Nodes''
       = Some (PList [PDict [(''Node'', PInt 1)],
          PDict [(''Node'', PInt 2),
                 (''Sensor'', PDict [(''data'', PDict [(''Co2'', PInt 612)])])]])
   \<and> list_all is_dict [PDict [(''Node'', PInt 1)],
          PDict [(''Node'', PInt 2),
                 (''Sensor'', PDict [(''data'', PDict [(''Co2'', PInt 612)])])]]
   \<and> fst (DucoboxNodeSensorEntity_native_value
       \<lparr>entity_description = UCCO2_sensors ! 1, attr_unique_id = ''box-2-Co2'',
        attr_name = ''box:2:UCCO2 CO2'', node_id = 2\<rparr>
       \<lparr>duco_client = None, data = PDict [(''Nodes'', PList [PDict [(''Node'', PInt 1)],
          PDict [(''Node'', PInt 2),
                 (''Sensor'', PDict [(''data'', PDict [(''Co2'', PInt 612)])])]])],
          last_update_success = True\<rparr>) = Inr (PInt 612)
   \<and> fetch_data
       (Some \<lparr>get_info_reply = (\<lambda>n. Inr PNone),
          get_nodes_reply = (\<lambda>n. Inr (NodesResponse True (Some
            [NodeInfo [(''Node'', PInt 1)],
             NodeInfo [(''Node'', PInt 2),
               (''Sensor'', PDict [(''data'', PDict [(''Co2'', PInt 612)])])]])))\<rparr>)
       \<lparr>info_calls = 0, nodes_calls = 0\<rparr>
     = (Inr (data \<lparr>duco_client = None, data = PDict [(''Nodes'', PList [PDict [(''Node'', PInt 1)],
          PDict [(''Node'', PInt 2),
                 (''Sensor'', PDict [(''data'', PDict [(''Co2'', PInt 612)])])]])],
          last_update_success = True\<rparr>), \<lparr>info_calls = 1, nodes_calls = 1\<rparr>)
   \<and> (\<exists>nodes. safe_get (data \<lparr>duco_client = None, data = PDict [(''Nodes'', PList [PDict [(''Node'', PInt 1)],
          PDict [(''Node'', PInt 2),
                 (''Sensor'', PDict [(''data'', PDict [(''Co2'', PInt 612)])])]])],
          last_update_success = True\<rparr>) [''Nodes''] = PList nodes
        \<and> fst (DucoboxNodeSensorEntity_native_value
       \<lparr>entity_description = UCCO2_sensors ! 1, attr_unique_id = ''box-2-Co2'',
        attr_name = ''box:2:UCCO2 CO2'', node_id = 2\<rparr>
       \<lparr>duco_client = None, data = PDict [(''Nodes'', PList [PDict [(''Node'', PInt 1)],
          PDict [(''Node'', PInt 2),
                 (''Sensor'', PDict [(''data'', PDict [(''Co2'', PInt 612)])])]])],
          last_update_success = True\<rparr>) =
            Inr (case find (\<lambda>node. py_eq_int (lookup1 node ''Node'') (node_id
       \<lparr>entity_description = UCCO2_sensors ! 1, attr_unique_id = ''box-2-Co2'',
        attr_name = ''box:2:UCCO2 CO2'', node_id = 2\<rparr>)) nodes of
                   None \<Rightarrow> PNone
                 | Some node \<Rightarrow>
                     (case value_fn (entity_description
       \<lparr>entity_description = UCCO2_sensors ! 1, attr_unique_id = ''box-2-Co2'',
        attr_name = ''box:2:UCCO2 CO2'', node_id = 2\<rparr>) node of
                        Inr v \<Rightarrow> v
                      | Inl err \<Rightarrow> PNone)))
   \<and> data \<lparr>duco_client = None, data = PDict [], last_update_success = True\<rparr> = PDict []
   \<and> map_of ([] :: (string \<times> pyval) list) ''Nodes'' = None
   \<and> fst (DucoboxNodeSensorEntity_native_value
       \<lparr>entity_description = UCCO2_sensors ! 1, attr_unique_id = ''box-2-Co2'',
        attr_name = ''box:2:UCCO2 CO2'', node_id = 2\<rparr>
       \<lparr>duco_client = None, data = PDict [], last_update_success = True\<rparr>) = Inr PNone"
proof -
  define e :: DucoboxNodeSensorEntity where "e = \<lparr>entity_description = UCCO2_sensors ! 1, attr_unique_id = ''box-2-Co2'',
        attr_name = ''box:2:UCCO2 CO2'', node_id = 2\<rparr>"
  define nodes where "nodes = [PDict [(''Node'', PInt 1)],
          PDict [(''Node'', PInt 2),
                 (''Sensor'', PDict [(''data'', PDict [(''Co2'', PInt 612)])])]]"
  define c where "c = \<lparr>duco_client = None, data = PDict [(''Nodes'', PList nodes)],
          last_update_success = True\<rparr>"
  define c0 where "c0 = \<lparr>duco_client = None, data = PDict [], last_update_success = True\<rparr>"
  define cl where "cl = \<lparr>get_info_reply = (\<lambda>n. Inr PNone),
          get_nodes_reply = (\<lambda>n. Inr (NodesResponse True (Some
            [NodeInfo [(''Node'', PInt 1)],
             NodeInfo [(''Node'', PInt 2),
               (''Sensor'', PDict [(''data'', PDict [(''Co2'', PInt 612)])])]])))\<rparr>"
  have h: "data c = PDict [(''Nodes'', PList nodes)]
      \<and> map_of [(''Nodes'', PList nodes)] ''Nodes'' = Some (PList nodes)
      \<and> list_all is_dict nodes"
    by (simp add: c_def nodes_def is_dict_def)
  from node_native_value_first_match [of c "[(''Nodes'', PList nodes)]" e,
      THEN conjunct2, THEN conjunct1, rule_format, OF h]
  have "fst (DucoboxNodeSensorEntity_native_value e c) =
          Inr (case find (\<lambda>node. py_eq_int (lookup1 node ''Node'') (node_id e)) nodes of
                 None \<Rightarrow> PNone
               | Some node \<Rightarrow>
                   (case value_fn (entity_description e) node of
                      Inr v \<Rightarrow> v
                    | Inl err \<Rightarrow> PNone))" .
  also have "\<dots> = Inr (PInt 612)"
    by (simp add: nodes_def e_def lookup1_def dict_get_def UCCO2_sensors_def
        process_node_co2_def)
  finally have 1: "fst (DucoboxNodeSensorEntity_native_value e c) = Inr (PInt 612)" .
  have f: "fetch_data (Some cl) \<lparr>info_calls = 0, nodes_calls = 0\<rparr>
     = (Inr (data c), \<lparr>info_calls = 1, nodes_calls = 1\<rparr>)"
    by (simp add: fetch_data_Some cl_def c_def nodes_def fetched_nodes_def set_item_def
        dict_set_def)
  from node_native_value_first_match [of c "[]" e,
      THEN conjunct2, THEN conjunct2, THEN conjunct1, rule_format, OF f]
  have 3: "\<exists>nodes. safe_get (data c) [''Nodes''] = PList nodes
        \<and> fst (DucoboxNodeSensorEntity_native_value e c) =
            Inr (case find (\<lambda>node. py_eq_int (lookup1 node ''Node'') (node_id e)) nodes of
                   None \<Rightarrow> PNone
                 | Some node \<Rightarrow>
                     (case value_fn (entity_description e) node of
                        Inr v \<Rightarrow> v
                      | Inl err \<Rightarrow> PNone))" .
  have h0: "data c0 = PDict [] \<and> map_of ([] :: (string \<times> pyval) list) ''Nodes'' = None"
    by (simp add: c0_def)
  from node_native_value_first_match [of c0 "[]" e, THEN conjunct1, rule_format, OF h0]
  have 2: "fst (DucoboxNodeSensorEntity_native_value e c0) = Inr PNone" .
  show ?thesis using h 1 f 3 h0 2 unfolding e_def c_def c0_def nodes_def cl_def
    by (simp only: simp_thms)
qed

end
